theory Spec2Isabelle
  imports Complex_Main "HOL-Library.AList"
begin

section \<open>Python values and exceptions\<close>

text \<open>
  The data that flows through the alert system is JSON decoded by Python: dictionaries,
  lists, strings, numbers, booleans and \<open>None\<close>. Python's \<open>int\<close> and \<open>float\<close> are both
  modelled by exact real numbers (no rounding, no NaN, no infinities); \<open>bool\<close> stays a
  separate constructor because \<open>isinstance(True, (int, float))\<close> holds and \<open>True\<close> counts
  as \<open>1\<close> in arithmetic. A dictionary is an association list read with \<open>map_of\<close>.
\<close>

datatype pyval =
    PNone
  | PBool bool
  | PNum real
  | PStr string
  | PList "pyval list"
  | PDict "(string \<times> pyval) list"

type_synonym pydict = "(string \<times> pyval) list"

text \<open>
  Exceptions are values. \<open>RequestException\<close> stands for the whole
  \<open>requests.exceptions.RequestException\<close> family (connection errors, timeouts, the
  \<open>HTTPError\<close> of \<open>raise_for_status\<close>); its argument identifies the failure. \<open>PyException\<close>
  is a plain \<open>Exception(message)\<close>.
\<close>

datatype exn =
    KeyError
  | TypeError
  | AttributeError
  | IndexError
  | ValueError
  | RequestException string
  | PyException string

fun is_RequestException :: "exn \<Rightarrow> bool" where
  "is_RequestException (RequestException _) = True"
| "is_RequestException _ = False"

text \<open>Truthiness, as \<open>not x\<close> and \<open>x or y\<close> read it.\<close>

fun py_truthy :: "pyval \<Rightarrow> bool" where
  "py_truthy PNone = False"
| "py_truthy (PBool b) = b"
| "py_truthy (PNum x) = (x \<noteq> 0)"
| "py_truthy (PStr s) = (s \<noteq> [])"
| "py_truthy (PList xs) = (xs \<noteq> [])"
| "py_truthy (PDict d) = (d \<noteq> [])"

text \<open>\<open>isinstance(v, (int, float))\<close>.\<close>

fun isinstance_int_float :: "pyval \<Rightarrow> bool" where
  "isinstance_int_float (PNum _) = True"
| "isinstance_int_float (PBool _) = True"
| "isinstance_int_float _ = False"

text \<open>
  The number a value denotes in arithmetic and in an ordering comparison with a float;
  every other kind of value raises \<open>TypeError\<close> there.
\<close>

fun py_number :: "pyval \<Rightarrow> exn + real" where
  "py_number (PNum x) = Inr x"
| "py_number (PBool b) = Inr (if b then 1 else 0)"
| "py_number _ = Inl TypeError"

text \<open>\<open>v.get(key, default)\<close>: only a dictionary has the method.\<close>

fun py_get :: "pyval \<Rightarrow> string \<Rightarrow> pyval \<Rightarrow> exn + pyval" where
  "py_get (PDict d) k dflt = Inr (case map_of d k of None \<Rightarrow> dflt | Some v \<Rightarrow> v)"
| "py_get _ k dflt = Inl AttributeError"

text \<open>\<open>d.get(key, default)\<close> on a value known to be a dictionary.\<close>

definition dict_get :: "pydict \<Rightarrow> string \<Rightarrow> pyval \<Rightarrow> pyval" where
  "dict_get d k dflt = (case map_of d k of None \<Rightarrow> dflt | Some v \<Rightarrow> v)"

text \<open>\<open>v[0]\<close>.\<close>

fun py_index0 :: "pyval \<Rightarrow> exn + pyval" where
  "py_index0 (PList []) = Inl IndexError"
| "py_index0 (PList (x # xs)) = Inr x"
| "py_index0 (PStr []) = Inl IndexError"
| "py_index0 (PStr (c # cs)) = Inr (PStr [c])"
| "py_index0 (PDict d) = Inl KeyError"
| "py_index0 _ = Inl TypeError"

text \<open>\<open>a + b\<close> as the system meets it: numbers add; strings and lists concatenate.\<close>

fun py_add :: "pyval \<Rightarrow> pyval \<Rightarrow> exn + pyval" where
  "py_add (PStr s) (PStr t) = Inr (PStr (s @ t))"
| "py_add (PList xs) (PList ys) = Inr (PList (xs @ ys))"
| "py_add a b =
     (case py_number a of
        Inl e \<Rightarrow> Inl e
      | Inr x \<Rightarrow> (case py_number b of Inl e \<Rightarrow> Inl e | Inr y \<Rightarrow> Inr (PNum (x + y))))"

section \<open>Configuration (src/config/settings.py, src/weather/client.py)\<close>

text \<open>
  The module-level constants are read from the environment at import time; the record
  holds one loaded configuration. Date-times are integers counting microseconds, the
  resolution of \<open>datetime\<close>.
\<close>

record settings =
  THRESHOLD_LIGHT :: real
  THRESHOLD_MODERATE :: real
  THRESHOLD_HEAVY :: real
  VERIFICATION_THRESHOLD :: real
  ALERT_COOLDOWN_HOURS :: int
  CACHE_TTL :: int
  OPENWEATHER_API_KEY :: string
  WEATHERAPI_KEY :: string

definition default_settings :: settings where
  "default_settings =
     \<lparr> THRESHOLD_LIGHT = 2, THRESHOLD_MODERATE = 6, THRESHOLD_HEAVY = 12,
       VERIFICATION_THRESHOLD = 2, ALERT_COOLDOWN_HOURS = 12, CACHE_TTL = 300,
       OPENWEATHER_API_KEY = [], WEATHERAPI_KEY = [] \<rparr>"

type_synonym datetime = int

definition timedelta_hours :: "int \<Rightarrow> int" where
  "timedelta_hours h = h * 3600000000"

definition timedelta_seconds :: "int \<Rightarrow> int" where
  "timedelta_seconds s = s * 1000000"

section \<open>The decision engine (src/core/processor.py)\<close>

text \<open>
  \<open>SnowfallProcessor.last_alerts\<close>: resort name to (category to last alert time). The
  time of each \<open>datetime.now()\<close> call is an argument of the function that makes it.
\<close>

type_synonym last_alerts = "string \<rightharpoonup> (string \<rightharpoonup> datetime)"

definition load_last_alerts :: last_alerts where
  "load_last_alerts = Map.empty"

definition is_in_cooldown :: "settings \<Rightarrow> last_alerts \<Rightarrow> datetime \<Rightarrow> string \<Rightarrow> string \<Rightarrow> bool" where
  "is_in_cooldown cfg la now resort_name category =
     (case la resort_name of
        None \<Rightarrow> False
      | Some per_resort \<Rightarrow>
          (case per_resort category of
             None \<Rightarrow> False
           | Some last_time \<Rightarrow>
               now < last_time + timedelta_hours (ALERT_COOLDOWN_HOURS cfg)))"

definition update_last_alert_time :: "last_alerts \<Rightarrow> datetime \<Rightarrow> string \<Rightarrow> string \<Rightarrow> last_alerts" where
  "update_last_alert_time la now resort_name category =
     (let la1 = (if la resort_name = None then la(resort_name \<mapsto> Map.empty) else la);
          per_resort = (case la1 resort_name of Some m \<Rightarrow> m | None \<Rightarrow> Map.empty)
      in la1(resort_name \<mapsto> per_resort(category \<mapsto> now)))"

definition determine_alert_category :: "settings \<Rightarrow> real \<Rightarrow> string" where
  "determine_alert_category cfg snow_amount =
     (if snow_amount \<ge> THRESHOLD_HEAVY cfg then ''heavy''
      else if snow_amount \<ge> THRESHOLD_MODERATE cfg then ''moderate''
      else if snow_amount \<ge> THRESHOLD_LIGHT cfg then ''light''
      else ''none'')"

definition calculate_time_window_data :: "pydict \<Rightarrow> exn + pydict" where
  "calculate_time_window_data current_data =
     (case py_add (dict_get current_data ''current_snow'' (PNum 0))
                  (dict_get current_data ''forecast_snow'' (PNum 0)) of
        Inl e \<Rightarrow> Inl e
      | Inr total_48h \<Rightarrow>
          Inr [(''current_24h'', dict_get current_data ''current_snow'' (PNum 0)),
               (''forecast_24h'', dict_get current_data ''forecast_snow'' (PNum 0)),
               (''total_48h'', total_48h)])"

text \<open>
  \<open>should_trigger_alert\<close> returns \<open>(triggered, category)\<close>. A missing \<open>current_24h\<close> key
  raises \<open>KeyError\<close>, a value that does not compare with a float raises \<open>TypeError\<close>.
\<close>

definition should_trigger_alert ::
  "settings \<Rightarrow> last_alerts \<Rightarrow> datetime \<Rightarrow> string \<Rightarrow> pydict \<Rightarrow> bool \<Rightarrow> exn + (bool \<times> string option)" where
  "should_trigger_alert cfg la now resort_name snow_data is_verified =
     (case map_of snow_data ''current_24h'' of
        None \<Rightarrow> Inl KeyError
      | Some v \<Rightarrow>
          (case py_number v of
             Inl e \<Rightarrow> Inl e
           | Inr current \<Rightarrow>
               if current \<ge> THRESHOLD_LIGHT cfg \<and> \<not> is_verified then Inr (False, None)
               else
                 (let category = determine_alert_category cfg current in
                  if category = ''none'' then Inr (False, None)
                  else if is_in_cooldown cfg la now resort_name category then Inr (False, None)
                  else Inr (True, Some category))))"

text \<open>The order of the categories, for monotonicity: none, light, moderate, heavy.\<close>

definition category_rank :: "string \<Rightarrow> nat" where
  "category_rank c =
     (if c = ''heavy'' then 3 else if c = ''moderate'' then 2
      else if c = ''light'' then 1 else 0)"

text \<open>The classification as the specification words it, to compare with the code.\<close>

definition classify_reference :: "real \<Rightarrow> real \<Rightarrow> real \<Rightarrow> real \<Rightarrow> string" where
  "classify_reference light moderate heavy a =
     (if heavy \<le> a then ''heavy''
      else if moderate \<le> a \<and> a < heavy then ''moderate''
      else if light \<le> a \<and> a < moderate \<and> a < heavy then ''light''
      else ''none'')"

text \<open>
  The last-alert time recorded for a (resort, category) pair, if any: what the two
  membership tests and the double lookup of \<open>is_in_cooldown\<close> read.
\<close>

definition last_alert_time :: "last_alerts \<Rightarrow> string \<Rightarrow> string \<Rightarrow> datetime option" where
  "last_alert_time la resort_name category =
     (case la resort_name of None \<Rightarrow> None | Some per_resort \<Rightarrow> per_resort category)"

section \<open>The weather clients (src/weather/client.py)\<close>

text \<open>
  What the clients reach outside the program is an environment of oracles, so that every
  run is a function of it: the outcome of the \<open>n\<close>-th HTTP request of the run
  (\<open>session.get\<close>, \<open>raise_for_status\<close> and \<open>response.json()\<close> taken together: the decoded
  payload, or the exception raised), the value of the \<open>n\<close>-th \<open>datetime.now()\<close>, and
  the library functions whose results are only stored or compared (\<open>isoformat\<close>,
  \<open>hashlib.md5(...).hexdigest()\<close>, \<open>json.dumps(..., sort_keys=True)\<close>, \<open>str\<close>).
\<close>

record env =
  session_get :: "nat \<Rightarrow> string \<Rightarrow> pydict \<Rightarrow> exn + pyval"
  datetime_now :: "nat \<Rightarrow> datetime"
  isoformat :: "datetime \<Rightarrow> string"
  md5_hexdigest :: "string \<Rightarrow> string"
  json_dumps :: "pydict \<Rightarrow> string"
  str_float :: "real \<Rightarrow> string"
  str_exn :: "exn \<Rightarrow> string"

text \<open>
  The effects of a run: how many HTTP requests and clock readings it has made, and the
  trace of its requests (by URL) and of its \<open>time.sleep\<close> calls (by duration), in the
  order it made them.
\<close>

datatype event = HttpGet string | Sleep real

record world =
  http_calls :: nat
  clock_reads :: nat
  events :: "event list"

definition read_clock :: "env \<Rightarrow> world \<Rightarrow> datetime \<times> world" where
  "read_clock ev w = (datetime_now ev (clock_reads w), w\<lparr>clock_reads := Suc (clock_reads w)\<rparr>)"

definition time_sleep :: "real \<Rightarrow> world \<Rightarrow> world" where
  "time_sleep d w = w\<lparr>events := events w @ [Sleep d]\<rparr>"

text \<open>One attempt: \<open>session.get(url, params=params, timeout=10)\<close> and the decoding.\<close>

definition http_get :: "env \<Rightarrow> world \<Rightarrow> string \<Rightarrow> pydict \<Rightarrow> (exn + pyval) \<times> world" where
  "http_get ev w url params =
     (session_get ev (http_calls w) url params,
      w\<lparr>http_calls := Suc (http_calls w), events := events w @ [HttpGet url]\<rparr>)"

subsection \<open>WeatherAPIClient: cache and retry\<close>

text \<open>
  The private methods \<open>_get_cache_key\<close>, \<open>_is_cache_valid\<close>, \<open>_cache_response\<close> and
  \<open>_make_request\<close> keep their names without the leading underscore. The \<open>requests\<close>
  session of a client is the environment's \<open>session_get\<close>.
\<close>

record client =
  api_key :: string
  base_url :: string
  cache_enabled :: bool
  cache :: "string \<rightharpoonup> pyval"
  cache_expiry :: "string \<rightharpoonup> datetime"

definition WeatherAPIClient_init :: "string \<Rightarrow> string \<Rightarrow> bool \<Rightarrow> client" where
  "WeatherAPIClient_init key url enabled =
     \<lparr> api_key = key, base_url = url, cache_enabled = enabled,
       cache = Map.empty, cache_expiry = Map.empty \<rparr>"

definition get_cache_key :: "env \<Rightarrow> string \<Rightarrow> pydict \<Rightarrow> string" where
  "get_cache_key ev endpoint params =
     md5_hexdigest ev (endpoint @ '':'' @ json_dumps ev params)"

text \<open>\<open>_is_cache_valid\<close> reads the clock only when the key is in both maps.\<close>

definition is_cache_valid :: "env \<Rightarrow> client \<Rightarrow> world \<Rightarrow> string \<Rightarrow> bool \<times> world" where
  "is_cache_valid ev cl w cache_key =
     (if cache cl cache_key = None \<or> cache_expiry cl cache_key = None then (False, w)
      else
        (case cache_expiry cl cache_key of
           None \<Rightarrow> (False, w)
         | Some expiry \<Rightarrow> (let (now, w1) = read_clock ev w in (now < expiry, w1))))"

definition cache_response ::
  "settings \<Rightarrow> env \<Rightarrow> client \<Rightarrow> world \<Rightarrow> string \<Rightarrow> pyval \<Rightarrow> client \<times> world" where
  "cache_response cfg ev cl w cache_key response =
     (let (now, w1) = read_clock ev w in
      (cl\<lparr> cache := (cache cl)(cache_key \<mapsto> response),
           cache_expiry := (cache_expiry cl)(cache_key \<mapsto> now + timedelta_seconds (CACHE_TTL cfg)) \<rparr>,
       w1))"

text \<open>
  The \<open>while retries < max_retries\<close> loop of \<open>_make_request\<close>, entered with the current
  \<open>retries\<close> and \<open>last_exception\<close>. Only a \<open>RequestException\<close> is caught and retried; any
  other exception of the attempt propagates at once.
\<close>

function request_loop ::
  "settings \<Rightarrow> env \<Rightarrow> client \<Rightarrow> world \<Rightarrow> string \<Rightarrow> pydict \<Rightarrow> int \<Rightarrow> real \<Rightarrow> nat \<Rightarrow> exn option
     \<Rightarrow> (exn + pyval) \<times> client \<times> world" where
  "request_loop cfg ev cl w endpoint params max_retries retry_delay retries last_exception =
     (if int retries < max_retries then
        (let (outcome, w1) = http_get ev w (base_url cl @ ''/'' @ endpoint) params
         in case outcome of
              Inr data \<Rightarrow>
                (if cache_enabled cl then
                   (let (cl1, w2) = cache_response cfg ev cl w1 (get_cache_key ev endpoint params) data
                    in (Inr data, cl1, w2))
                 else (Inr data, cl, w1))
            | Inl e \<Rightarrow>
                (if is_RequestException e then
                   (if int (Suc retries) < max_retries then
                      request_loop cfg ev cl
                        (time_sleep (retry_delay * 2 ^ (Suc retries - 1)) w1)
                        endpoint params max_retries retry_delay (Suc retries) (Some e)
                    else
                      request_loop cfg ev cl w1
                        endpoint params max_retries retry_delay (Suc retries) (Some e))
                 else (Inl e, cl, w1)))
      else
        (Inl (case last_exception of
                Some e \<Rightarrow> e
              | None \<Rightarrow> PyException (''Request to '' @ base_url cl @ ''/'' @ endpoint
                                       @ '' failed for unknown reason'')),
         cl, w))"
  by pat_completeness auto
termination
  by (relation "measure (\<lambda>(cfg, ev, cl, w, endpoint, params, max_retries, retry_delay, retries, last_exception).
        nat (max_retries - int retries))") auto

declare request_loop.simps [simp del]

text \<open>\<open>params = params or {}\<close>: \<open>None\<close> and the empty dictionary both give the empty one.\<close>

definition params_or_empty :: "pydict option \<Rightarrow> pydict" where
  "params_or_empty params = (case params of None \<Rightarrow> [] | Some p \<Rightarrow> p)"

definition make_request ::
  "settings \<Rightarrow> env \<Rightarrow> client \<Rightarrow> world \<Rightarrow> string \<Rightarrow> pydict option \<Rightarrow> int \<Rightarrow> real
     \<Rightarrow> (exn + pyval) \<times> client \<times> world" where
  "make_request cfg ev cl w endpoint params0 max_retries retry_delay =
     (let params = params_or_empty params0 in
      if cache_enabled cl then
        (let cache_key = get_cache_key ev endpoint params;
             (valid, w1) = is_cache_valid ev cl w cache_key
         in if valid then
              (case cache cl cache_key of
                 Some cached \<Rightarrow> (Inr cached, cl, w1)
               | None \<Rightarrow> (Inl KeyError, cl, w1))
            else request_loop cfg ev cl w1 endpoint params max_retries retry_delay 0 None)
      else request_loop cfg ev cl w endpoint params max_retries retry_delay 0 None)"

subsection \<open>WeatherApiClient (the secondary source)\<close>

text \<open>\<open>api_key or KEY\<close>: the argument unless it is \<open>None\<close> or empty.\<close>

definition api_key_or :: "string option \<Rightarrow> string \<Rightarrow> string" where
  "api_key_or key dflt = (case key of None \<Rightarrow> dflt | Some k \<Rightarrow> if k = [] then dflt else k)"

definition WeatherApiClient_init :: "settings \<Rightarrow> string option \<Rightarrow> bool \<Rightarrow> client" where
  "WeatherApiClient_init cfg key enabled =
     WeatherAPIClient_init (api_key_or key (WEATHERAPI_KEY cfg)) ''https://api.weatherapi.com/v1'' enabled"

definition WeatherApiClient_get_forecast ::
  "settings \<Rightarrow> env \<Rightarrow> client \<Rightarrow> world \<Rightarrow> real \<Rightarrow> real \<Rightarrow> int \<Rightarrow> (exn + pyval) \<times> client \<times> world" where
  "WeatherApiClient_get_forecast cfg ev cl w lat lon days =
     make_request cfg ev cl w ''forecast.json''
       (Some [(''q'', PStr (str_float ev lat @ '','' @ str_float ev lon)),
              (''days'', PNum (of_int days)),
              (''key'', PStr (api_key cl))])
       3 1"

text \<open>
  The chain \<open>data.get("forecast", {}).get("forecastday", [{}])[0].get("day",
  {}).get("totalsnow_cm", 0)\<close>; each step raises when the value before it is of the
  wrong kind.
\<close>

definition extract_totalsnow_cm :: "pyval \<Rightarrow> exn + pyval" where
  "extract_totalsnow_cm data =
     (case py_get data ''forecast'' (PDict []) of
        Inl e \<Rightarrow> Inl e
      | Inr forecast \<Rightarrow>
     (case py_get forecast ''forecastday'' (PList [PDict []]) of
        Inl e \<Rightarrow> Inl e
      | Inr forecastday \<Rightarrow>
     (case py_index0 forecastday of
        Inl e \<Rightarrow> Inl e
      | Inr first_day \<Rightarrow>
     (case py_get first_day ''day'' (PDict []) of
        Inl e \<Rightarrow> Inl e
      | Inr day \<Rightarrow> py_get day ''totalsnow_cm'' (PNum 0)))))"

text \<open>\<open>snow_cm / 2.54\<close>.\<close>

definition cm_to_inches :: "pyval \<Rightarrow> exn + real" where
  "cm_to_inches snow_cm =
     (case py_number snow_cm of Inl e \<Rightarrow> Inl e | Inr x \<Rightarrow> Inr (x / (254 / 100)))"

text \<open>\<open>data.get("current", {}).get("temp_f", 0)\<close>.\<close>

definition extract_temp_f :: "pyval \<Rightarrow> exn + pyval" where
  "extract_temp_f data =
     (case py_get data ''current'' (PDict []) of
        Inl e \<Rightarrow> Inl e
      | Inr current \<Rightarrow> py_get current ''temp_f'' (PNum 0))"

text \<open>\<open>data.get("current", {}).get("condition", {}).get("text", "")\<close>.\<close>

definition extract_condition_text :: "pyval \<Rightarrow> exn + pyval" where
  "extract_condition_text data =
     (case py_get data ''current'' (PDict []) of
        Inl e \<Rightarrow> Inl e
      | Inr current \<Rightarrow>
     (case py_get current ''condition'' (PDict []) of
        Inl e \<Rightarrow> Inl e
      | Inr condition \<Rightarrow> py_get condition ''text'' (PStr [])))"

definition WeatherApiClient_get_snow_data ::
  "settings \<Rightarrow> env \<Rightarrow> client \<Rightarrow> world \<Rightarrow> real \<Rightarrow> real \<Rightarrow> (exn + pydict) \<times> client \<times> world" where
  "WeatherApiClient_get_snow_data cfg ev cl w lat lon =
     (case WeatherApiClient_get_forecast cfg ev cl w lat lon 1 of
        (Inl e, cl1, w1) \<Rightarrow> (Inl e, cl1, w1)
      | (Inr data, cl1, w1) \<Rightarrow>
     (case extract_totalsnow_cm data of
        Inl e \<Rightarrow> (Inl e, cl1, w1)
      | Inr snow_cm \<Rightarrow>
     (case cm_to_inches snow_cm of
        Inl e \<Rightarrow> (Inl e, cl1, w1)
      | Inr snow_inches \<Rightarrow>
     (case extract_temp_f data of
        Inl e \<Rightarrow> (Inl e, cl1, w1)
      | Inr current_temp_f \<Rightarrow>
     (case extract_condition_text data of
        Inl e \<Rightarrow> (Inl e, cl1, w1)
      | Inr conditions \<Rightarrow>
          (let (now, w2) = read_clock ev w1 in
           (Inr [(''snow_cm'', snow_cm),
                 (''snow_inches'', PNum snow_inches),
                 (''current_temp'', current_temp_f),
                 (''conditions'', conditions),
                 (''timestamp'', PStr (isoformat ev now)),
                 (''source'', PStr ''WeatherAPI.com'')],
            cl1, w2)))))))"

subsection \<open>OpenWeatherMapClient (the primary source)\<close>

definition OpenWeatherMapClient_init :: "settings \<Rightarrow> string option \<Rightarrow> bool \<Rightarrow> client" where
  "OpenWeatherMapClient_init cfg key enabled =
     WeatherAPIClient_init (api_key_or key (OPENWEATHER_API_KEY cfg))
       ''https://api.openweathermap.org/data/2.5'' enabled"

definition OpenWeatherMapClient_get_current_weather ::
  "settings \<Rightarrow> env \<Rightarrow> client \<Rightarrow> world \<Rightarrow> real \<Rightarrow> real \<Rightarrow> (exn + pyval) \<times> client \<times> world" where
  "OpenWeatherMapClient_get_current_weather cfg ev cl w lat lon =
     make_request cfg ev cl w ''weather''
       (Some [(''lat'', PNum lat), (''lon'', PNum lon), (''units'', PStr ''imperial''),
              (''appid'', PStr (api_key cl))])
       3 1"

definition OpenWeatherMapClient_get_forecast ::
  "settings \<Rightarrow> env \<Rightarrow> client \<Rightarrow> world \<Rightarrow> real \<Rightarrow> real \<Rightarrow> (exn + pyval) \<times> client \<times> world" where
  "OpenWeatherMapClient_get_forecast cfg ev cl w lat lon =
     make_request cfg ev cl w ''forecast''
       (Some [(''lat'', PNum lat), (''lon'', PNum lon), (''units'', PStr ''imperial''),
              (''appid'', PStr (api_key cl))])
       3 1"

text \<open>
  Current snow: \<open>current_snow = current_data.get("snow", {}).get("1h", 0)\<close>, then
  \<open>if not current_snow: current_snow = current_data.get("snow", 0)\<close>.
\<close>

definition extract_current_snow :: "pyval \<Rightarrow> exn + pyval" where
  "extract_current_snow current_data =
     (case py_get current_data ''snow'' (PDict []) of
        Inl e \<Rightarrow> Inl e
      | Inr snow \<Rightarrow>
     (case py_get snow ''1h'' (PNum 0) of
        Inl e \<Rightarrow> Inl e
      | Inr current_snow \<Rightarrow>
          if \<not> py_truthy current_snow then py_get current_data ''snow'' (PNum 0)
          else Inr current_snow))"

text \<open>
  The values the loop \<open>for period in forecast_data.get("list", [])[:8]\<close> runs over. A
  string slices and iterates by character; a dictionary and a scalar cannot be sliced.
\<close>

fun py_first8 :: "pyval \<Rightarrow> exn + pyval list" where
  "py_first8 (PList xs) = Inr (take 8 xs)"
| "py_first8 (PStr s) = Inr (map (\<lambda>c. PStr [c]) (take 8 s))"
| "py_first8 _ = Inl TypeError"

text \<open>
  One pass of the loop body: \<open>period_snow = period.get("snow", {}).get("3h", 0)\<close>; then
  \<open>if not period_snow and isinstance(period.get("snow"), (int, float)): period_snow =
  period.get("snow", 0)\<close>.
\<close>

definition extract_period_snow :: "pyval \<Rightarrow> exn + pyval" where
  "extract_period_snow period =
     (case py_get period ''snow'' (PDict []) of
        Inl e \<Rightarrow> Inl e
      | Inr snow \<Rightarrow>
     (case py_get snow ''3h'' (PNum 0) of
        Inl e \<Rightarrow> Inl e
      | Inr period_snow \<Rightarrow>
          if \<not> py_truthy period_snow then
            (case py_get period ''snow'' PNone of
               Inl e \<Rightarrow> Inl e
             | Inr s \<Rightarrow>
                 if isinstance_int_float s then py_get period ''snow'' (PNum 0)
                 else Inr period_snow)
          else Inr period_snow))"

text \<open>The loop, with \<open>forecast_snow\<close> as accumulator: \<open>forecast_snow += period_snow\<close>.\<close>

fun sum_forecast_snow :: "pyval list \<Rightarrow> pyval \<Rightarrow> exn + pyval" where
  "sum_forecast_snow [] forecast_snow = Inr forecast_snow"
| "sum_forecast_snow (period # periods) forecast_snow =
     (case extract_period_snow period of
        Inl e \<Rightarrow> Inl e
      | Inr period_snow \<Rightarrow>
     (case py_add forecast_snow period_snow of
        Inl e \<Rightarrow> Inl e
      | Inr forecast_snow1 \<Rightarrow> sum_forecast_snow periods forecast_snow1))"

definition extract_forecast_snow :: "pyval \<Rightarrow> exn + pyval" where
  "extract_forecast_snow forecast_data =
     (case py_get forecast_data ''list'' (PList []) of
        Inl e \<Rightarrow> Inl e
      | Inr periods \<Rightarrow>
     (case py_first8 periods of
        Inl e \<Rightarrow> Inl e
      | Inr first8 \<Rightarrow> sum_forecast_snow first8 (PNum 0)))"

text \<open>\<open>current_data.get("main", {}).get("temp", 0)\<close>.\<close>

definition extract_current_temp :: "pyval \<Rightarrow> exn + pyval" where
  "extract_current_temp current_data =
     (case py_get current_data ''main'' (PDict []) of
        Inl e \<Rightarrow> Inl e
      | Inr main \<Rightarrow> py_get main ''temp'' (PNum 0))"

text \<open>\<open>current_data.get("weather", [{}])[0].get("description", "")\<close>.\<close>

definition extract_conditions :: "pyval \<Rightarrow> exn + pyval" where
  "extract_conditions current_data =
     (case py_get current_data ''weather'' (PList [PDict []]) of
        Inl e \<Rightarrow> Inl e
      | Inr weather \<Rightarrow>
     (case py_index0 weather of
        Inl e \<Rightarrow> Inl e
      | Inr first_weather \<Rightarrow> py_get first_weather ''description'' (PStr [])))"

text \<open>The body of the outer \<open>try\<close> of \<open>OpenWeatherMapClient.get_snow_data\<close>.\<close>

definition free_endpoints_snow_data ::
  "settings \<Rightarrow> env \<Rightarrow> client \<Rightarrow> world \<Rightarrow> real \<Rightarrow> real \<Rightarrow> (exn + pydict) \<times> client \<times> world" where
  "free_endpoints_snow_data cfg ev cl w lat lon =
     (case OpenWeatherMapClient_get_current_weather cfg ev cl w lat lon of
        (Inl e, cl1, w1) \<Rightarrow> (Inl e, cl1, w1)
      | (Inr current_data, cl1, w1) \<Rightarrow>
     (case OpenWeatherMapClient_get_forecast cfg ev cl1 w1 lat lon of
        (Inl e, cl2, w2) \<Rightarrow> (Inl e, cl2, w2)
      | (Inr forecast_data, cl2, w2) \<Rightarrow>
     (case extract_current_snow current_data of
        Inl e \<Rightarrow> (Inl e, cl2, w2)
      | Inr current_snow \<Rightarrow>
     (case extract_forecast_snow forecast_data of
        Inl e \<Rightarrow> (Inl e, cl2, w2)
      | Inr forecast_snow \<Rightarrow>
     (case extract_current_temp current_data of
        Inl e \<Rightarrow> (Inl e, cl2, w2)
      | Inr current_temp \<Rightarrow>
     (case extract_conditions current_data of
        Inl e \<Rightarrow> (Inl e, cl2, w2)
      | Inr conditions \<Rightarrow>
          (let (now, w3) = read_clock ev w2 in
           (Inr [(''current_snow'', current_snow),
                 (''forecast_snow'', forecast_snow),
                 (''current_temp'', current_temp),
                 (''conditions'', conditions),
                 (''timestamp'', PStr (isoformat ev now)),
                 (''source'', PStr ''OpenWeatherMap (Free API)'')],
            cl2, w3))))))))"

text \<open>
  The first handler's \<open>try\<close>: a fresh \<open>WeatherApiClient()\<close>, its \<open>get_snow_data\<close>, and the
  conversion of the result. The fresh client is local and is dropped afterwards.
\<close>

definition fallback_snow_data ::
  "settings \<Rightarrow> env \<Rightarrow> world \<Rightarrow> real \<Rightarrow> real \<Rightarrow> (exn + pydict) \<times> world" where
  "fallback_snow_data cfg ev w lat lon =
     (case WeatherApiClient_get_snow_data cfg ev (WeatherApiClient_init cfg None True) w lat lon of
        (Inl e, weather_api_client, w1) \<Rightarrow> (Inl e, w1)
      | (Inr secondary_data, weather_api_client, w1) \<Rightarrow>
          (let (now, w2) = read_clock ev w1 in
           (Inr [(''current_snow'', dict_get secondary_data ''snow_inches'' (PNum 0)),
                 (''forecast_snow'', PNum 0),
                 (''current_temp'', dict_get secondary_data ''current_temp'' (PNum 0)),
                 (''conditions'', dict_get secondary_data ''conditions'' (PStr [])),
                 (''timestamp'', PStr (isoformat ev now)),
                 (''source'', PStr ''Fallback: WeatherAPI.com'')],
            w2)))"

definition OpenWeatherMapClient_get_snow_data ::
  "settings \<Rightarrow> env \<Rightarrow> client \<Rightarrow> world \<Rightarrow> real \<Rightarrow> real \<Rightarrow> pydict \<times> client \<times> world" where
  "OpenWeatherMapClient_get_snow_data cfg ev cl w lat lon =
     (case free_endpoints_snow_data cfg ev cl w lat lon of
        (Inr snow_data, cl1, w1) \<Rightarrow> (snow_data, cl1, w1)
      | (Inl e, cl1, w1) \<Rightarrow>
          (case fallback_snow_data cfg ev w1 lat lon of
             (Inr snow_data, w2) \<Rightarrow> (snow_data, cl1, w2)
           | (Inl fallback_error, w2) \<Rightarrow>
               (let (now, w3) = read_clock ev w2 in
                ([(''current_snow'', PNum 0),
                  (''forecast_snow'', PNum 0),
                  (''current_temp'', PNum 0),
                  (''conditions'', PStr ''Error fetching data''),
                  (''timestamp'', PStr (isoformat ev now)),
                  (''source'', PStr ''Default values (API errors)'')],
                 cl1, w3))))"

subsection \<open>The module-level entry points\<close>

text \<open>
  \<open>get_resort_snow_data\<close>: a fresh \<open>OpenWeatherMapClient()\<close> for every call. The two
  subscripts read for the log line raise \<open>KeyError\<close> on a missing key, and the handler
  re-raises any exception as a plain \<open>Exception\<close>.
\<close>

definition get_resort_snow_data ::
  "settings \<Rightarrow> env \<Rightarrow> world \<Rightarrow> string \<Rightarrow> real \<Rightarrow> real \<Rightarrow> (exn + pydict) \<times> world" where
  "get_resort_snow_data cfg ev w resort_name lat lon =
     (case OpenWeatherMapClient_get_snow_data cfg ev (OpenWeatherMapClient_init cfg None True) w lat lon of
        (snow_data0, cl1, w1) \<Rightarrow>
          (let snow_data = AList.update ''resort'' (PStr resort_name) snow_data0 in
           if map_of snow_data ''current_snow'' = None \<or> map_of snow_data ''forecast_snow'' = None
           then (Inl (PyException (''Failed to retrieve weather data: '' @ str_exn ev KeyError)), w1)
           else (Inr snow_data, w1)))"

text \<open>
  \<open>verify_with_secondary_source\<close>. First the body of its \<open>try\<close>: the one-second pause,
  a fresh \<open>WeatherApiClient()\<close>, its \<open>get_snow_data\<close>, the subscript
  \<open>secondary_data["snow_inches"]\<close> and the comparison.
\<close>

definition verify_try_body ::
  "settings \<Rightarrow> env \<Rightarrow> world \<Rightarrow> string \<Rightarrow> real \<Rightarrow> real \<Rightarrow> real
     \<Rightarrow> (exn + (bool \<times> pydict option)) \<times> world" where
  "verify_try_body cfg ev w resort_name lat lon primary_snow_amount =
     (let w0 = time_sleep 1 w in
      case WeatherApiClient_get_snow_data cfg ev (WeatherApiClient_init cfg None True) w0 lat lon of
        (Inl e, cl1, w1) \<Rightarrow> (Inl e, w1)
      | (Inr secondary_data0, cl1, w1) \<Rightarrow>
          (let secondary_data = AList.update ''resort'' (PStr resort_name) secondary_data0 in
           case map_of secondary_data ''snow_inches'' of
             None \<Rightarrow> (Inl KeyError, w1)
           | Some v \<Rightarrow>
               (case py_number v of
                  Inl e \<Rightarrow> (Inl e, w1)
                | Inr snow_inches \<Rightarrow>
                    if \<bar>primary_snow_amount - snow_inches\<bar> \<le> VERIFICATION_THRESHOLD cfg
                    then (Inr (True, Some secondary_data), w1)
                    else (Inr (False, Some secondary_data), w1))))"

text \<open>Then the function: \<open>except Exception\<close> turns every exception into \<open>(False, None)\<close>.\<close>

definition verify_with_secondary_source ::
  "settings \<Rightarrow> env \<Rightarrow> world \<Rightarrow> string \<Rightarrow> real \<Rightarrow> real \<Rightarrow> real \<Rightarrow> (bool \<times> pydict option) \<times> world" where
  "verify_with_secondary_source cfg ev w resort_name lat lon primary_snow_amount =
     (case verify_try_body cfg ev w resort_name lat lon primary_snow_amount of
        (Inr result, w1) \<Rightarrow> (result, w1)
      | (Inl e, w1) \<Rightarrow> ((False, None), w1))"

subsection \<open>Concrete environments and clients\<close>

text \<open>
  Responses in the manner of the test suite: the forecast of WeatherAPI.com reports
  12.7 cm of snow; every other request fails.
\<close>

definition weatherapi_only :: "nat \<Rightarrow> string \<Rightarrow> exn + pyval" where
  "weatherapi_only n url =
     (if url = ''https://api.weatherapi.com/v1/forecast.json'' then
        Inr (PDict [(''current'', PDict [(''temp_f'', PNum 30),
                                         (''condition'', PDict [(''text'', PStr ''Light snow'')])]),
                    (''forecast'', PDict [(''forecastday'',
                        PList [PDict [(''day'', PDict [(''totalsnow_cm'', PNum (127 / 10))])]])])])
      else Inl (RequestException ''500 Server Error''))"

text \<open>
  The current-weather endpoint reports snow as a scalar, \<open>{"snow": 5.0, ...}\<close>; the
  forecast endpoint reports an empty list; the secondary source is down.
\<close>

definition scalar_snow_responses :: "nat \<Rightarrow> string \<Rightarrow> exn + pyval" where
  "scalar_snow_responses n url =
     (if url = ''https://api.openweathermap.org/data/2.5/weather'' then
        Inr (PDict [(''main'', PDict [(''temp'', PNum 30)]),
                    (''weather'', PList [PDict [(''description'', PStr ''light snow'')]]),
                    (''snow'', PNum 5)])
      else if url = ''https://api.openweathermap.org/data/2.5/forecast'' then
        Inr (PDict [(''list'', PList [])])
      else Inl (RequestException ''500 Server Error''))"

text \<open>
  The current-weather endpoint reports snow nested by hour but under \<open>3h\<close> only,
  \<open>{"snow": {"3h": 1.2}, ...}\<close>; the forecast endpoint reports an empty list.
\<close>

definition nested_3h_responses :: "nat \<Rightarrow> string \<Rightarrow> exn + pyval" where
  "nested_3h_responses n url =
     (if url = ''https://api.openweathermap.org/data/2.5/weather'' then
        Inr (PDict [(''main'', PDict [(''temp'', PNum 30)]),
                    (''weather'', PList [PDict [(''description'', PStr ''light snow'')]]),
                    (''snow'', PDict [(''3h'', PNum (6 / 5))])])
      else if url = ''https://api.openweathermap.org/data/2.5/forecast'' then
        Inr (PDict [(''list'', PList [])])
      else Inl (RequestException ''500 Server Error''))"

text \<open>
  A deterministic environment in the manner of the test suite's mocks: the responses are
  given per request number and URL, the \<open>n\<close>-th clock reading is \<open>n\<close> seconds, the hash
  is the identity and \<open>json.dumps\<close> lists the parameter names.
\<close>

definition mock_env :: "(nat \<Rightarrow> string \<Rightarrow> exn + pyval) \<Rightarrow> env" where
  "mock_env responses =
     \<lparr> session_get = (\<lambda>n url params. responses n url),
       datetime_now = (\<lambda>n. int n * 1000000),
       isoformat = (\<lambda>t. ''2025-03-21T12:34:56''),
       md5_hexdigest = (\<lambda>s. s),
       json_dumps = (\<lambda>params. concat (map fst params)),
       str_float = (\<lambda>x. ''40.0''),
       str_exn = (\<lambda>e. ''error'') \<rparr>"

definition world0 :: world where
  "world0 = \<lparr> http_calls = 0, clock_reads = 0, events = [] \<rparr>"

text \<open>Every request fails with the \<open>HTTPError\<close> of a status 500.\<close>

definition always_http_500 :: "nat \<Rightarrow> string \<Rightarrow> exn + pyval" where
  "always_http_500 n url = Inl (RequestException ''500 Server Error'')"

text \<open>
  The client of \<open>test_make_request_cache_hit\<close>: an entry for the request
  \<open>("test", {"test": "param"})\<close> that expires in the far future.
\<close>

definition warm_client :: client where
  "warm_client =
     (WeatherAPIClient_init ''test_key'' ''https://api.example.com'' True)
       \<lparr> cache := [''test:test'' \<mapsto> PDict [(''result'', PStr ''cached'')]],
         cache_expiry := [''test:test'' \<mapsto> 253402300799000000] \<rparr>"


text \<open>Every request succeeds with the payload of \<open>test_make_request_success\<close>.\<close>

definition always_ok :: "nat \<Rightarrow> string \<Rightarrow> exn + pyval" where
  "always_ok n url = Inr (PDict [(''result'', PStr ''success'')])"

text \<open>The same entry as in \<open>warm_client\<close>, expiring at time \<open>0\<close>.\<close>

definition stale_client :: client where
  "stale_client = warm_client \<lparr> cache_expiry := [''test:test'' \<mapsto> 0] \<rparr>"

section \<open>Properties of the decision engine\<close>

lemma is_in_cooldown_last_alert_time:
  "is_in_cooldown cfg la now r c =
     (case last_alert_time la r c of
        None \<Rightarrow> False
      | Some t \<Rightarrow> now < t + timedelta_hours (ALERT_COOLDOWN_HOURS cfg))"
  by (simp add: is_in_cooldown_def last_alert_time_def split: option.splits)

lemma last_alert_time_update:
  "last_alert_time (update_last_alert_time la t0 r c) r' c' =
     (if r' = r \<and> c' = c then Some t0 else last_alert_time la r' c')"
  by (auto simp: last_alert_time_def update_last_alert_time_def Let_def split: option.splits)

lemma default_thresholds:
  "THRESHOLD_LIGHT default_settings = 2"
  "THRESHOLD_MODERATE default_settings = 6"
  "THRESHOLD_HEAVY default_settings = 12"
  "VERIFICATION_THRESHOLD default_settings = 2"
  "ALERT_COOLDOWN_HOURS default_settings = 12"
  "CACHE_TTL default_settings = 300"
  by (simp_all add: default_settings_def)

text \<open>
  C1. Verification gate. Whenever the \<open>current_24h\<close> amount of the snow data is a number
  at or above \<open>THRESHOLD_LIGHT\<close> and \<open>is_verified\<close> is false, \<open>should_trigger_alert\<close>
  returns \<open>(False, None)\<close>, for every resort, every alert history, every time and every
  configuration (so whatever category the amount would classify to).
\<close>

theorem unverified_significant_snow_never_alerts:
  assumes "map_of snow_data ''current_24h'' = Some v"
    and "py_number v = Inr current"
    and "current \<ge> THRESHOLD_LIGHT cfg"
  shows "should_trigger_alert cfg la now resort_name snow_data False = Inr (False, None)"
  using assms by (simp add: should_trigger_alert_def)

theorem unverified_significant_snow_never_alerts_witness:
  "map_of [(''current_24h'', PNum 5), (''forecast_24h'', PNum 3), (''total_48h'', PNum 8)]
      ''current_24h'' = Some (PNum 5)
   \<and> py_number (PNum 5) = Inr 5
   \<and> (5::real) \<ge> THRESHOLD_LIGHT default_settings
   \<and> should_trigger_alert default_settings load_last_alerts 0 ''Test Resort''
        [(''current_24h'', PNum 5), (''forecast_24h'', PNum 3), (''total_48h'', PNum 8)] False
      = Inr (False, None)"
proof -
  have h1: "map_of [(''current_24h'', PNum 5), (''forecast_24h'', PNum 3), (''total_48h'', PNum 8)]
      ''current_24h'' = Some (PNum 5)"
    by simp
  have h2: "py_number (PNum 5) = Inr 5"
    by simp
  have h3: "(5::real) \<ge> THRESHOLD_LIGHT default_settings"
    by (simp add: default_thresholds)
  from unverified_significant_snow_never_alerts [OF h1 h2 h3] h1 h2 h3
  show ?thesis by blast
qed

text \<open>
  C2. Classification. For every amount \<open>a\<close> and every configuration,
  \<open>determine_alert_category\<close> is the piecewise reference classification (heavy from the
  heavy threshold up, else moderate from the moderate threshold up, else light from the
  light threshold up, else none); it is monotonic non-decreasing in \<open>a\<close> for the order
  none, light, moderate, heavy; an amount equal to a threshold gets at least that
  threshold's category (the comparisons are \<open>\<ge>\<close>); the heavy threshold itself is heavy;
  and the heavy threshold minus any \<open>eps\<close> with \<open>0 < eps \<le> heavy - moderate\<close> is not heavy.
\<close>

theorem determine_alert_category_piecewise:
  "determine_alert_category cfg a
     = classify_reference (THRESHOLD_LIGHT cfg) (THRESHOLD_MODERATE cfg) (THRESHOLD_HEAVY cfg) a
   \<and> (a \<le> b \<longrightarrow> category_rank (determine_alert_category cfg a)
                   \<le> category_rank (determine_alert_category cfg b))
   \<and> determine_alert_category cfg (THRESHOLD_HEAVY cfg) = ''heavy''
   \<and> 2 \<le> category_rank (determine_alert_category cfg (THRESHOLD_MODERATE cfg))
   \<and> 1 \<le> category_rank (determine_alert_category cfg (THRESHOLD_LIGHT cfg))
   \<and> (0 < eps \<and> eps \<le> THRESHOLD_HEAVY cfg - THRESHOLD_MODERATE cfg
        \<longrightarrow> determine_alert_category cfg (THRESHOLD_HEAVY cfg - eps) \<noteq> ''heavy'')"
  by (simp add: determine_alert_category_def classify_reference_def category_rank_def)

theorem determine_alert_category_piecewise_witness:
  "determine_alert_category default_settings 5 = classify_reference 2 6 12 5
   \<and> (5::real) \<le> 6
   \<and> category_rank (determine_alert_category default_settings 5)
       \<le> category_rank (determine_alert_category default_settings 6)
   \<and> determine_alert_category default_settings 12 = ''heavy''
   \<and> (0::real) < 6 \<and> (6::real) \<le> 12 - 6
   \<and> determine_alert_category default_settings (12 - 6) \<noteq> ''heavy''"
proof -
  have n: "(5::real) \<le> 6" "(0::real) < 6" "(6::real) \<le> 12 - 6"
    by simp_all
  from determine_alert_category_piecewise [of default_settings 5 6 6, unfolded default_thresholds] n
  show ?thesis by blast
qed

text \<open>
  C3. Cooldown gate. For every resort and category: when the snow data passes the
  verification gate and classifies to a category other than none, \<open>should_trigger_alert\<close>
  suppresses the alert exactly when a last-alert time is recorded for the pair and
  \<open>now < last_time + timedelta(hours=ALERT_COOLDOWN_HOURS)\<close>, and triggers it with that
  category otherwise. After \<open>update_last_alert_time\<close> has recorded an alert at \<open>t0\<close>,
  \<open>is_in_cooldown\<close> for the pair holds at \<open>now\<close> iff \<open>now < t0 + cooldown\<close>: with a positive
  cooldown it holds at \<open>t0\<close> itself, and it is false from \<open>t0 + cooldown\<close> on.
\<close>

theorem cooldown_gate:
  "(map_of snow_data ''current_24h'' = Some v \<and> py_number v = Inr current
      \<and> (current < THRESHOLD_LIGHT cfg \<or> is_verified)
      \<and> determine_alert_category cfg current = category \<and> category \<noteq> ''none''
    \<longrightarrow> should_trigger_alert cfg la now resort_name snow_data is_verified =
          (case last_alert_time la resort_name category of
             None \<Rightarrow> Inr (True, Some category)
           | Some last_time \<Rightarrow>
               if now < last_time + timedelta_hours (ALERT_COOLDOWN_HOURS cfg)
               then Inr (False, None) else Inr (True, Some category)))
   \<and> (is_in_cooldown cfg (update_last_alert_time la t0 resort_name category) now resort_name category
        \<longleftrightarrow> now < t0 + timedelta_hours (ALERT_COOLDOWN_HOURS cfg))
   \<and> (0 < ALERT_COOLDOWN_HOURS cfg
        \<longrightarrow> is_in_cooldown cfg (update_last_alert_time la t0 resort_name category) t0 resort_name category)
   \<and> (t0 + timedelta_hours (ALERT_COOLDOWN_HOURS cfg) \<le> now
        \<longrightarrow> \<not> is_in_cooldown cfg (update_last_alert_time la t0 resort_name category) now resort_name category)"
proof -
  have gate: "should_trigger_alert cfg la now resort_name snow_data is_verified =
          (case last_alert_time la resort_name category of
             None \<Rightarrow> Inr (True, Some category)
           | Some last_time \<Rightarrow>
               if now < last_time + timedelta_hours (ALERT_COOLDOWN_HOURS cfg)
               then Inr (False, None) else Inr (True, Some category))"
    if "map_of snow_data ''current_24h'' = Some v" "py_number v = Inr current"
      "current < THRESHOLD_LIGHT cfg \<or> is_verified"
      "determine_alert_category cfg current = category" "category \<noteq> ''none''"
    using that
    by (auto simp: should_trigger_alert_def Let_def is_in_cooldown_last_alert_time
             split: option.splits)
  have after: "is_in_cooldown cfg (update_last_alert_time la t0 resort_name category) n resort_name category
        \<longleftrightarrow> n < t0 + timedelta_hours (ALERT_COOLDOWN_HOURS cfg)" for n
    by (simp add: is_in_cooldown_last_alert_time last_alert_time_update)
  have pos: "0 < timedelta_hours (ALERT_COOLDOWN_HOURS cfg)" if "0 < ALERT_COOLDOWN_HOURS cfg"
    using that by (simp add: timedelta_hours_def)
  show ?thesis
    using gate after pos by force
qed

theorem cooldown_gate_witness:
  "map_of [(''current_24h'', PNum 8), (''forecast_24h'', PNum 2), (''total_48h'', PNum 10)]
      ''current_24h'' = Some (PNum 8)
   \<and> py_number (PNum 8) = Inr 8
   \<and> determine_alert_category default_settings 8 = ''moderate''
   \<and> should_trigger_alert default_settings
        (update_last_alert_time load_last_alerts 0 ''Alta'' ''moderate'') 1000000 ''Alta''
        [(''current_24h'', PNum 8), (''forecast_24h'', PNum 2), (''total_48h'', PNum 10)] True
      = Inr (False, None)
   \<and> should_trigger_alert default_settings
        load_last_alerts 1000000 ''Alta''
        [(''current_24h'', PNum 8), (''forecast_24h'', PNum 2), (''total_48h'', PNum 10)] True
      = Inr (True, Some ''moderate'')
   \<and> is_in_cooldown default_settings
        (update_last_alert_time load_last_alerts 0 ''Alta'' ''moderate'') 0 ''Alta'' ''moderate''
   \<and> (0::int) + timedelta_hours (ALERT_COOLDOWN_HOURS default_settings) \<le> 43200000000
   \<and> \<not> is_in_cooldown default_settings
        (update_last_alert_time load_last_alerts 0 ''Alta'' ''moderate'') 43200000000 ''Alta'' ''moderate''"
proof -
  let ?sd = "[(''current_24h'', PNum 8), (''forecast_24h'', PNum 2), (''total_48h'', PNum 10)]"
  let ?la = "update_last_alert_time load_last_alerts 0 ''Alta'' ''moderate''"
  have h1: "map_of ?sd ''current_24h'' = Some (PNum 8)" by simp
  have h2: "py_number (PNum 8) = Inr 8" by simp
  have h3: "(8::real) < THRESHOLD_LIGHT default_settings \<or> True" by simp
  have h4: "determine_alert_category default_settings 8 = ''moderate''"
    by (simp add: determine_alert_category_def default_thresholds)
  have h5: "''moderate'' \<noteq> ''none''" by simp
  have h6: "0 < ALERT_COOLDOWN_HOURS default_settings"
    by (simp add: default_thresholds)
  have h7: "(0::int) + timedelta_hours (ALERT_COOLDOWN_HOURS default_settings) \<le> 43200000000"
    by (simp add: default_thresholds timedelta_hours_def)
  have l1: "last_alert_time ?la ''Alta'' ''moderate'' = Some 0"
    by (simp add: last_alert_time_update)
  have l2: "last_alert_time load_last_alerts ''Alta'' ''moderate'' = None"
    by (simp add: last_alert_time_def load_last_alerts_def)
  have l3: "(1000000::int) < 0 + timedelta_hours (ALERT_COOLDOWN_HOURS default_settings)"
    by (simp add: default_thresholds timedelta_hours_def)
  note A = cooldown_gate [where snow_data = ?sd and v = "PNum 8" and current = 8
      and cfg = default_settings and is_verified = True and category = "''moderate''"
      and la = ?la and now = 1000000 and resort_name = "''Alta''" and ?t0.0 = 0]
  note B = cooldown_gate [where snow_data = ?sd and v = "PNum 8" and current = 8
      and cfg = default_settings and is_verified = True and category = "''moderate''"
      and la = load_last_alerts and now = 1000000 and resort_name = "''Alta''" and ?t0.0 = 0]
  note C = cooldown_gate [where snow_data = ?sd and v = "PNum 8" and current = 8
      and cfg = default_settings and is_verified = True and category = "''moderate''"
      and la = load_last_alerts and now = 43200000000 and resort_name = "''Alta''" and ?t0.0 = 0]
  from A h1 h2 h4 h5 l1 l3
  have a: "should_trigger_alert default_settings ?la 1000000 ''Alta'' ?sd True = Inr (False, None)"
    by simp
  from B h1 h2 h4 h5 l2
  have b: "should_trigger_alert default_settings load_last_alerts 1000000 ''Alta'' ?sd True
      = Inr (True, Some ''moderate'')"
    by simp
  from B h6 have c: "is_in_cooldown default_settings ?la 0 ''Alta'' ''moderate''"
    by blast
  from C h7 have d: "\<not> is_in_cooldown default_settings ?la 43200000000 ''Alta'' ''moderate''"
    by blast
  from h1 h2 h4 a b c d h7 show ?thesis by blast
qed

text \<open>
  C7. Frame of \<open>update_last_alert_time\<close>. The update records the time for its own
  (resort, category) pair; the entry of every other resort is the same object as before;
  and for every other pair (another category of the same resort, or another resort) the
  recorded last-alert time and the cooldown status at any time are unchanged.
\<close>

theorem update_last_alert_time_frame:
  "last_alert_time (update_last_alert_time la t0 resort_name category) resort_name category = Some t0
   \<and> (resort' \<noteq> resort_name \<longrightarrow>
        update_last_alert_time la t0 resort_name category resort' = la resort')
   \<and> (resort' \<noteq> resort_name \<or> category' \<noteq> category \<longrightarrow>
        last_alert_time (update_last_alert_time la t0 resort_name category) resort' category'
          = last_alert_time la resort' category'
        \<and> is_in_cooldown cfg (update_last_alert_time la t0 resort_name category) now resort' category'
          = is_in_cooldown cfg la now resort' category')"
proof -
  have other_resort: "update_last_alert_time la t0 resort_name category resort' = la resort'"
    if "resort' \<noteq> resort_name"
    using that by (simp add: update_last_alert_time_def Let_def)
  have other_pair:
    "last_alert_time (update_last_alert_time la t0 resort_name category) resort' category'
       = last_alert_time la resort' category'"
    if "resort' \<noteq> resort_name \<or> category' \<noteq> category"
    using that by (auto simp: last_alert_time_update)
  have same_pair:
    "last_alert_time (update_last_alert_time la t0 resort_name category) resort_name category = Some t0"
    by (simp add: last_alert_time_update)
  show ?thesis
    using other_resort other_pair same_pair
    by (simp add: is_in_cooldown_last_alert_time)
qed

theorem update_last_alert_time_frame_witness:
  "''moderate'' \<noteq> ''light''
   \<and> ''Snowbird'' \<noteq> ''Alta''
   \<and> last_alert_time (update_last_alert_time load_last_alerts 0 ''Alta'' ''light'') ''Alta'' ''light''
       = Some 0
   \<and> last_alert_time (update_last_alert_time load_last_alerts 0 ''Alta'' ''light'') ''Alta'' ''moderate''
       = None
   \<and> \<not> is_in_cooldown default_settings
         (update_last_alert_time load_last_alerts 0 ''Alta'' ''light'') 0 ''Alta'' ''moderate''
   \<and> update_last_alert_time load_last_alerts 0 ''Alta'' ''light'' ''Snowbird'' = None"
proof -
  have h1: "''moderate'' \<noteq> ''light''" by simp
  have h2: "''Snowbird'' \<noteq> ''Alta''" by simp
  have l: "last_alert_time load_last_alerts r c = None" for r c
    by (simp add: last_alert_time_def load_last_alerts_def)
  have k: "\<not> is_in_cooldown default_settings load_last_alerts 0 ''Alta'' ''moderate''"
    by (simp add: is_in_cooldown_def load_last_alerts_def)
  have e: "load_last_alerts ''Snowbird'' = None"
    by (simp add: load_last_alerts_def)
  note A = update_last_alert_time_frame [where la = load_last_alerts and ?t0.0 = 0
      and resort_name = "''Alta''" and category = "''light''" and resort' = "''Alta''"
      and category' = "''moderate''" and cfg = default_settings and now = 0]
  note B = update_last_alert_time_frame [where la = load_last_alerts and ?t0.0 = 0
      and resort_name = "''Alta''" and category = "''light''" and resort' = "''Snowbird''"
      and category' = "''moderate''" and cfg = default_settings and now = 0]
  from A h1 l k B h2 e show ?thesis by simp
qed

section \<open>Properties of the client layer\<close>

lemma request_loop_exhausted:
  "\<not> int retries < max_retries \<Longrightarrow>
   request_loop cfg ev cl w endpoint params max_retries retry_delay retries last_exception =
     (Inl (case last_exception of
             Some e \<Rightarrow> e
           | None \<Rightarrow> PyException (''Request to '' @ base_url cl @ ''/'' @ endpoint
                                    @ '' failed for unknown reason'')),
      cl, w)"
  by (subst request_loop.simps) simp

lemma request_loop_retry:
  "int retries < max_retries \<Longrightarrow> url = base_url cl @ ''/'' @ endpoint \<Longrightarrow>
   session_get ev (http_calls w) url params = Inl (RequestException m) \<Longrightarrow>
   request_loop cfg ev cl w endpoint params max_retries retry_delay retries last_exception =
     request_loop cfg ev cl
       (if int (Suc retries) < max_retries
        then time_sleep (retry_delay * 2 ^ retries) (snd (http_get ev w url params))
        else snd (http_get ev w url params))
       endpoint params max_retries retry_delay (Suc retries) (Some (RequestException m))"
  by (subst request_loop.simps) (simp add: Let_def http_get_def)



lemma make_request_miss:
  "\<not> cache_enabled cl \<or> \<not> fst (is_cache_valid ev cl w (get_cache_key ev endpoint (params_or_empty params))) \<Longrightarrow>
   make_request cfg ev cl w endpoint params max_retries retry_delay =
     request_loop cfg ev cl
       (if cache_enabled cl
        then snd (is_cache_valid ev cl w (get_cache_key ev endpoint (params_or_empty params)))
        else w)
       endpoint (params_or_empty params) max_retries retry_delay 0 None"
  by (auto simp: make_request_def Let_def split: prod.splits)

lemma is_cache_valid_world:
  "http_calls (snd (is_cache_valid ev cl w k)) = http_calls w"
  "events (snd (is_cache_valid ev cl w k)) = events w"
  by (auto simp: is_cache_valid_def read_clock_def split: option.splits)

lemma request_loop_success:
  "int retries < max_retries \<Longrightarrow> url = base_url cl @ ''/'' @ endpoint \<Longrightarrow>
   session_get ev (http_calls w) url params = Inr data \<Longrightarrow>
   request_loop cfg ev cl w endpoint params max_retries retry_delay retries last_exception =
     (if cache_enabled cl then
        (Inr data,
         fst (cache_response cfg ev cl (snd (http_get ev w url params))
                (get_cache_key ev endpoint params) data),
         snd (cache_response cfg ev cl (snd (http_get ev w url params))
                (get_cache_key ev endpoint params) data))
      else (Inr data, cl, snd (http_get ev w url params)))"
  by (subst request_loop.simps) (simp add: Let_def http_get_def split: prod.splits)

lemma request_loop_propagate:
  "int retries < max_retries \<Longrightarrow> url = base_url cl @ ''/'' @ endpoint \<Longrightarrow>
   session_get ev (http_calls w) url params = Inl e \<Longrightarrow> \<not> is_RequestException e \<Longrightarrow>
   request_loop cfg ev cl w endpoint params max_retries retry_delay retries last_exception =
     (Inl e, cl, snd (http_get ev w url params))"
  by (subst request_loop.simps) (simp add: Let_def http_get_def)

lemma is_RequestException_iff: "is_RequestException e \<longleftrightarrow> (\<exists>m. e = RequestException m)"
  by (cases e) simp_all

lemma world_after_attempt:
  "http_calls (snd (http_get ev w url params)) = Suc (http_calls w)"
  "clock_reads (snd (http_get ev w url params)) = clock_reads w"
  "http_calls (time_sleep d w) = http_calls w"
  "clock_reads (time_sleep d w) = clock_reads w"
  "http_calls (snd (cache_response cfg ev cl w k v)) = http_calls w"
  "clock_reads (snd (cache_response cfg ev cl w k v)) = Suc (clock_reads w)"
  by (simp_all add: http_get_def time_sleep_def cache_response_def read_clock_def)

lemma request_loop_http_calls:
  "http_calls w \<le> http_calls (snd (snd (request_loop cfg ev cl w endpoint params max_retries retry_delay retries last_exception)))
   \<and> (int retries < max_retries \<longrightarrow>
        http_calls w < http_calls (snd (snd (request_loop cfg ev cl w endpoint params max_retries retry_delay retries last_exception))))"
proof (induction "nat (max_retries - int retries)" arbitrary: w retries last_exception)
  case 0
  then have "\<not> int retries < max_retries" by simp
  then show ?case by (simp add: request_loop_exhausted)
next
  case (Suc n)
  then have lt: "int retries < max_retries" by linarith
  define url where "url = base_url cl @ ''/'' @ endpoint"
  show ?case
  proof (cases "session_get ev (http_calls w) url params")
    case (Inr data)
    show ?thesis
      by (simp add: request_loop_success [OF lt url_def Inr] world_after_attempt)
  next
    case (Inl e)
    show ?thesis
    proof (cases "is_RequestException e")
      case False
      show ?thesis
        by (simp add: request_loop_propagate [OF lt url_def Inl False] world_after_attempt)
    next
      case True
      then obtain m where e: "e = RequestException m"
        by (auto simp: is_RequestException_iff)
      have n: "n = nat (max_retries - int (Suc retries))"
        using Suc.hyps(2) by linarith
      note IH = Suc.hyps(1) [OF n]
      show ?thesis
        unfolding request_loop_retry [OF lt url_def Inl [unfolded e]]
        using IH [of "time_sleep (retry_delay * 2 ^ retries) (snd (http_get ev w url params))"
                     "Some (RequestException m)"]
              IH [of "snd (http_get ev w url params)" "Some (RequestException m)"]
        by (auto simp: world_after_attempt)
    qed
  qed
qed

lemma request_loop_cache_irrelevant:
  "fst (request_loop cfg ev (cl\<lparr>cache := c\<rparr>) w endpoint params max_retries retry_delay retries last_exception)
     = fst (request_loop cfg ev cl w endpoint params max_retries retry_delay retries last_exception)
   \<and> snd (snd (request_loop cfg ev (cl\<lparr>cache := c\<rparr>) w endpoint params max_retries retry_delay retries last_exception))
     = snd (snd (request_loop cfg ev cl w endpoint params max_retries retry_delay retries last_exception))"
proof (induction "nat (max_retries - int retries)" arbitrary: w retries last_exception)
  case 0
  then have "\<not> int retries < max_retries" by simp
  then show ?case by (simp add: request_loop_exhausted split: option.splits)
next
  case (Suc n)
  then have lt: "int retries < max_retries" by linarith
  define url where "url = base_url cl @ ''/'' @ endpoint"
  have url': "url = base_url (cl\<lparr>cache := c\<rparr>) @ ''/'' @ endpoint"
    by (simp add: url_def)
  show ?case
  proof (cases "session_get ev (http_calls w) url params")
    case (Inr data)
    show ?thesis
      by (simp add: request_loop_success [OF lt url_def Inr] request_loop_success [OF lt url' Inr]
            cache_response_def read_clock_def)
  next
    case (Inl e)
    show ?thesis
    proof (cases "is_RequestException e")
      case False
      show ?thesis
        by (simp add: request_loop_propagate [OF lt url_def Inl False]
              request_loop_propagate [OF lt url' Inl False])
    next
      case True
      then obtain m where e: "e = RequestException m"
        by (auto simp: is_RequestException_iff)
      have n: "n = nat (max_retries - int (Suc retries))"
        using Suc.hyps(2) by linarith
      note IH = Suc.hyps(1) [OF n]
      show ?thesis
        unfolding request_loop_retry [OF lt url_def Inl [unfolded e]]
                  request_loop_retry [OF lt url' Inl [unfolded e]]
        by (rule IH)
    qed
  qed
qed

lemma request_loop_caches_success:
  "cache_enabled cl \<Longrightarrow>
   request_loop cfg ev cl w endpoint params max_retries retry_delay retries last_exception
     = (Inr data, cl1, w1) \<Longrightarrow>
   cache cl1 (get_cache_key ev endpoint params) = Some data
   \<and> 0 < clock_reads w1
   \<and> cache_expiry cl1 (get_cache_key ev endpoint params)
       = Some (datetime_now ev (clock_reads w1 - 1) + timedelta_seconds (CACHE_TTL cfg))
   \<and> (\<forall>k. k \<noteq> get_cache_key ev endpoint params \<longrightarrow>
          cache cl1 k = cache cl k \<and> cache_expiry cl1 k = cache_expiry cl k)"
proof (induction "nat (max_retries - int retries)" arbitrary: w retries last_exception)
  case 0
  then have "\<not> int retries < max_retries" by simp
  with "0.prems" show ?case by (simp add: request_loop_exhausted)
next
  case (Suc n)
  then have lt: "int retries < max_retries" by linarith
  define url where "url = base_url cl @ ''/'' @ endpoint"
  show ?case
  proof (cases "session_get ev (http_calls w) url params")
    case (Inr d)
    show ?thesis
      using Suc.prems
      by (auto simp: request_loop_success [OF lt url_def Inr] cache_response_def read_clock_def)
  next
    case (Inl e)
    show ?thesis
    proof (cases "is_RequestException e")
      case False
      show ?thesis
        using Suc.prems by (simp add: request_loop_propagate [OF lt url_def Inl False])
    next
      case True
      then obtain m where e: "e = RequestException m"
        by (auto simp: is_RequestException_iff)
      have n: "n = nat (max_retries - int (Suc retries))"
        using Suc.hyps(2) by linarith
      show ?thesis
        using Suc.prems(2) unfolding request_loop_retry [OF lt url_def Inl [unfolded e]]
        by (rule Suc.hyps(1) [OF n Suc.prems(1)])
    qed
  qed
qed




text \<open>
  C8. Cache policy of \<open>_make_request\<close> with caching enabled. (Hit) If the request's key
  has an entry and the clock reads a time strictly before its expiry, the cached payload
  is returned and the world is unchanged but for that one clock reading: no request is
  made, whatever the network would answer. (Expired) If the clock reads the expiry time
  or later, the call is the retry loop itself, its result does not depend on the payload
  stored under the key, and with \<open>max_retries \<ge> 1\<close> at least one request is made.
  (Store) Whenever the call is not a cache hit and returns a payload, the client then
  holds that payload under the key with expiry \<open>now + CACHE_TTL\<close> seconds, \<open>now\<close> being
  the last clock reading of the call, and every other key is as before.
\<close>

theorem make_request_cache_policy:
  assumes enabled: "cache_enabled cl"
    and key: "cache_key = get_cache_key ev endpoint (params_or_empty params)"
  shows "(cache cl cache_key = Some payload \<and> cache_expiry cl cache_key = Some expiry
            \<and> datetime_now ev (clock_reads w) < expiry
          \<longrightarrow> make_request cfg ev cl w endpoint params max_retries retry_delay
                = (Inr payload, cl, w\<lparr>clock_reads := Suc (clock_reads w)\<rparr>))
       \<and> (cache cl cache_key = Some stale \<and> cache_expiry cl cache_key = Some expiry
            \<and> expiry \<le> datetime_now ev (clock_reads w)
          \<longrightarrow> make_request cfg ev cl w endpoint params max_retries retry_delay
                = request_loop cfg ev cl (w\<lparr>clock_reads := Suc (clock_reads w)\<rparr>)
                    endpoint (params_or_empty params) max_retries retry_delay 0 None
              \<and> fst (make_request cfg ev (cl\<lparr>cache := (cache cl)(cache_key \<mapsto> other)\<rparr>) w
                       endpoint params max_retries retry_delay)
                = fst (make_request cfg ev cl w endpoint params max_retries retry_delay)
              \<and> (1 \<le> max_retries \<longrightarrow>
                   http_calls w < http_calls (snd (snd
                     (make_request cfg ev cl w endpoint params max_retries retry_delay)))))
       \<and> (\<not> fst (is_cache_valid ev cl w cache_key)
            \<and> make_request cfg ev cl w endpoint params max_retries retry_delay = (Inr data, cl1, w1)
          \<longrightarrow> cache cl1 cache_key = Some data
              \<and> 0 < clock_reads w1
              \<and> cache_expiry cl1 cache_key
                  = Some (datetime_now ev (clock_reads w1 - 1) + timedelta_seconds (CACHE_TTL cfg))
              \<and> (\<forall>k. k \<noteq> cache_key \<longrightarrow>
                     cache cl1 k = cache cl k \<and> cache_expiry cl1 k = cache_expiry cl k))"
proof (intro conjI impI)
  assume "cache cl cache_key = Some payload \<and> cache_expiry cl cache_key = Some expiry
            \<and> datetime_now ev (clock_reads w) < expiry"
  then show "make_request cfg ev cl w endpoint params max_retries retry_delay
                = (Inr payload, cl, w\<lparr>clock_reads := Suc (clock_reads w)\<rparr>)"
    using enabled key
    by (simp add: make_request_def Let_def is_cache_valid_def read_clock_def)
next
  assume a: "cache cl cache_key = Some stale \<and> cache_expiry cl cache_key = Some expiry
            \<and> expiry \<le> datetime_now ev (clock_reads w)"
  then show loop: "make_request cfg ev cl w endpoint params max_retries retry_delay
                = request_loop cfg ev cl (w\<lparr>clock_reads := Suc (clock_reads w)\<rparr>)
                    endpoint (params_or_empty params) max_retries retry_delay 0 None"
    using enabled key
    by (simp add: make_request_def Let_def is_cache_valid_def read_clock_def)
  from a have "make_request cfg ev (cl\<lparr>cache := (cache cl)(cache_key \<mapsto> other)\<rparr>) w
                       endpoint params max_retries retry_delay
                = request_loop cfg ev (cl\<lparr>cache := (cache cl)(cache_key \<mapsto> other)\<rparr>)
                    (w\<lparr>clock_reads := Suc (clock_reads w)\<rparr>)
                    endpoint (params_or_empty params) max_retries retry_delay 0 None"
    using enabled key
    by (simp add: make_request_def Let_def is_cache_valid_def read_clock_def)
  then show "fst (make_request cfg ev (cl\<lparr>cache := (cache cl)(cache_key \<mapsto> other)\<rparr>) w
                       endpoint params max_retries retry_delay)
                = fst (make_request cfg ev cl w endpoint params max_retries retry_delay)"
    by (simp add: loop request_loop_cache_irrelevant)
  {
    assume "1 \<le> max_retries"
    then have "int 0 < max_retries" by simp
    with request_loop_http_calls [of "w\<lparr>clock_reads := Suc (clock_reads w)\<rparr>" cfg ev cl endpoint
        "params_or_empty params" max_retries retry_delay 0 None]
    show "http_calls w < http_calls (snd (snd
                     (make_request cfg ev cl w endpoint params max_retries retry_delay)))"
      unfolding loop by simp
  }
next
  assume a: "\<not> fst (is_cache_valid ev cl w cache_key)
            \<and> make_request cfg ev cl w endpoint params max_retries retry_delay = (Inr data, cl1, w1)"
  then have miss: "\<not> cache_enabled cl
      \<or> \<not> fst (is_cache_valid ev cl w (get_cache_key ev endpoint (params_or_empty params)))"
    using key by simp
  from a have "request_loop cfg ev cl
       (snd (is_cache_valid ev cl w (get_cache_key ev endpoint (params_or_empty params))))
       endpoint (params_or_empty params) max_retries retry_delay 0 None = (Inr data, cl1, w1)"
    unfolding make_request_miss [OF miss] using enabled by simp
  from request_loop_caches_success [OF enabled this, folded key]
  show "cache cl1 cache_key = Some data"
    and "0 < clock_reads w1"
    and "cache_expiry cl1 cache_key
                  = Some (datetime_now ev (clock_reads w1 - 1) + timedelta_seconds (CACHE_TTL cfg))"
    and "\<forall>k. k \<noteq> cache_key \<longrightarrow>
                     cache cl1 k = cache cl k \<and> cache_expiry cl1 k = cache_expiry cl k"
    by blast+
qed


theorem make_request_cache_policy_witness:
  "cache_enabled warm_client \<and> cache_enabled stale_client
   \<and> make_request default_settings (mock_env always_http_500) warm_client world0
        ''test'' (Some [(''test'', PStr ''param'')]) 3 1
       = (Inr (PDict [(''result'', PStr ''cached'')]), warm_client, world0\<lparr>clock_reads := 1\<rparr>)
   \<and> fst (make_request default_settings (mock_env always_ok) stale_client world0
        ''test'' (Some [(''test'', PStr ''param'')]) 3 1)
       = Inr (PDict [(''result'', PStr ''success'')])
   \<and> http_calls world0 < http_calls (snd (snd (make_request default_settings (mock_env always_ok)
        stale_client world0 ''test'' (Some [(''test'', PStr ''param'')]) 3 1)))
   \<and> cache (fst (snd (make_request default_settings (mock_env always_ok) stale_client world0
        ''test'' (Some [(''test'', PStr ''param'')]) 3 1))) ''test:test''
       = Some (PDict [(''result'', PStr ''success'')])
   \<and> cache_expiry (fst (snd (make_request default_settings (mock_env always_ok) stale_client world0
        ''test'' (Some [(''test'', PStr ''param'')]) 3 1))) ''test:test''
       = Some 301000000"
proof -
  let ?down = "mock_env always_http_500"
  let ?up = "mock_env always_ok"
  let ?params = "Some [(''test'', PStr ''param'')]"
  let ?cached = "PDict [(''result'', PStr ''cached'')]"
  let ?fresh = "PDict [(''result'', PStr ''success'')]"
  have en: "cache_enabled warm_client" "cache_enabled stale_client"
    by (simp_all add: stale_client_def warm_client_def WeatherAPIClient_init_def)
  have key_down: "''test:test'' = get_cache_key ?down ''test'' (params_or_empty ?params)"
    by (simp add: get_cache_key_def mock_env_def params_or_empty_def)
  have key_up: "''test:test'' = get_cache_key ?up ''test'' (params_or_empty ?params)"
    by (simp add: get_cache_key_def mock_env_def params_or_empty_def)
  have warm: "cache warm_client ''test:test'' = Some ?cached
      \<and> cache_expiry warm_client ''test:test'' = Some 253402300799000000
      \<and> datetime_now ?down (clock_reads world0) < 253402300799000000"
    by (simp add: warm_client_def WeatherAPIClient_init_def mock_env_def world0_def)
  have stale: "cache stale_client ''test:test'' = Some ?cached
      \<and> cache_expiry stale_client ''test:test'' = Some 0
      \<and> 0 \<le> datetime_now ?up (clock_reads world0)"
    by (simp add: stale_client_def warm_client_def WeatherAPIClient_init_def mock_env_def world0_def)
  have invalid: "\<not> fst (is_cache_valid ?up stale_client world0 ''test:test'')"
    by (simp add: is_cache_valid_def read_clock_def stale_client_def warm_client_def
          WeatherAPIClient_init_def mock_env_def world0_def)
  have ok: "session_get ?up (http_calls (world0\<lparr>clock_reads := Suc (clock_reads world0)\<rparr>))
              ''https://api.example.com/test'' (params_or_empty ?params) = Inr ?fresh"
    by (simp add: mock_env_def always_ok_def)
  have url: "''https://api.example.com/test'' = base_url stale_client @ ''/'' @ ''test''"
    by (simp add: stale_client_def warm_client_def WeatherAPIClient_init_def)
  have three: "int 0 < 3" "(1::int) \<le> 3" by simp_all
  note hit = make_request_cache_policy [OF en(1) key_down, of ?cached 253402300799000000 world0
      default_settings 3 1]
  note miss = make_request_cache_policy [OF en(2) key_up, where cfg = default_settings
      and w = world0 and max_retries = 3 and retry_delay = 1 and stale = ?cached and expiry = 0]
  from hit warm have 1: "make_request default_settings ?down warm_client world0 ''test'' ?params 3 1
       = (Inr ?cached, warm_client, world0\<lparr>clock_reads := 1\<rparr>)"
    by (simp add: world0_def)
  from miss stale have loop: "make_request default_settings ?up stale_client world0 ''test'' ?params 3 1
      = request_loop default_settings ?up stale_client (world0\<lparr>clock_reads := Suc (clock_reads world0)\<rparr>)
          ''test'' (params_or_empty ?params) 3 1 0 None"
    by blast
  have 2: "fst (make_request default_settings ?up stale_client world0 ''test'' ?params 3 1) = Inr ?fresh"
    unfolding loop request_loop_success [OF three(1) url ok] by (simp add: en)
  from miss stale three have 3: "http_calls world0 < http_calls (snd (snd
      (make_request default_settings ?up stale_client world0 ''test'' ?params 3 1)))"
    by blast
  have clock: "clock_reads (snd (snd (make_request default_settings ?up stale_client world0
      ''test'' ?params 3 1))) = 2"
    unfolding loop request_loop_success [OF three(1) url ok]
    by (simp add: en world_after_attempt world0_def)
  obtain r cl1 w1 where res: "make_request default_settings ?up stale_client world0 ''test'' ?params 3 1
      = (r, cl1, w1)"
    by (cases "make_request default_settings ?up stale_client world0 ''test'' ?params 3 1") blast
  with 2 clock have r: "r = Inr ?fresh" and w1: "clock_reads w1 = 2" by simp_all
  from miss [where data = ?fresh and ?cl1.0 = cl1 and ?w1.0 = w1] invalid res r
  have "cache cl1 ''test:test'' = Some ?fresh"
    and "cache_expiry cl1 ''test:test''
       = Some (datetime_now ?up (clock_reads w1 - 1) + timedelta_seconds (CACHE_TTL default_settings))"
    by blast+
  then have 4: "cache cl1 ''test:test'' = Some ?fresh"
    and 5: "cache_expiry cl1 ''test:test'' = Some 301000000"
    by (simp_all add: w1 mock_env_def timedelta_seconds_def default_thresholds)
  from en 1 2 3 4 5 show ?thesis
    unfolding res by simp
qed

lemma make_request_http_calls:
  "make_request cfg ev cl w endpoint params max_retries retry_delay = (r, cl1, w1) \<Longrightarrow>
   http_calls w \<le> http_calls w1"
proof -
  assume a: "make_request cfg ev cl w endpoint params max_retries retry_delay = (r, cl1, w1)"
  have mono: "http_calls w0 \<le> http_calls (snd (snd (request_loop cfg ev cl w0 endpoint
      (params_or_empty params) max_retries retry_delay 0 None)))" for w0
    using request_loop_http_calls by blast
  show ?thesis
  proof (cases "cache_enabled cl \<and> fst (is_cache_valid ev cl w (get_cache_key ev endpoint (params_or_empty params)))")
    case True
    with a show ?thesis
      by (auto simp: make_request_def Let_def is_cache_valid_def read_clock_def
               split: prod.splits option.splits if_splits)
  next
    case False
    then have miss: "\<not> cache_enabled cl
      \<or> \<not> fst (is_cache_valid ev cl w (get_cache_key ev endpoint (params_or_empty params)))"
      by blast
    from a mono [of "if cache_enabled cl
        then snd (is_cache_valid ev cl w (get_cache_key ev endpoint (params_or_empty params)))
        else w"]
    show ?thesis
      unfolding make_request_miss [OF miss]
      by (simp add: is_cache_valid_world split: if_splits)
  qed
qed

lemma make_request_empty_cache:
  "cache cl = Map.empty \<Longrightarrow> 1 \<le> max_retries \<Longrightarrow>
   make_request cfg ev cl w endpoint params max_retries retry_delay = (r, cl1, w1) \<Longrightarrow>
   http_calls w < http_calls w1"
proof -
  assume e: "cache cl = Map.empty" and m: "1 \<le> max_retries"
    and a: "make_request cfg ev cl w endpoint params max_retries retry_delay = (r, cl1, w1)"
  from e have miss: "\<not> cache_enabled cl
      \<or> \<not> fst (is_cache_valid ev cl w (get_cache_key ev endpoint (params_or_empty params)))"
    by (simp add: is_cache_valid_def)
  from m have lt: "int 0 < max_retries" by simp
  have w0: "(if cache_enabled cl
        then snd (is_cache_valid ev cl w (get_cache_key ev endpoint (params_or_empty params)))
        else w) = w"
    using e by (simp add: is_cache_valid_def)
  from request_loop_http_calls [of w cfg ev cl endpoint "params_or_empty params" max_retries
      retry_delay 0 None] lt a
  show ?thesis
    unfolding make_request_miss [OF miss] w0 by simp
qed

lemma make_request_empty_cache_default:
  "cache cl = Map.empty \<Longrightarrow>
   make_request cfg ev cl w endpoint params 3 retry_delay = (r, cl1, w1) \<Longrightarrow>
   http_calls w < http_calls w1"
  by (rule make_request_empty_cache [where max_retries = 3]) simp_all

lemma fresh_clients:
  "cache (WeatherAPIClient_init key url enabled) = Map.empty"
  "cache_expiry (WeatherAPIClient_init key url enabled) = Map.empty"
  "cache (OpenWeatherMapClient_init cfg k enabled) = Map.empty"
  "cache_expiry (OpenWeatherMapClient_init cfg k enabled) = Map.empty"
  "cache (WeatherApiClient_init cfg k enabled) = Map.empty"
  "cache_expiry (WeatherApiClient_init cfg k enabled) = Map.empty"
  by (simp_all add: WeatherAPIClient_init_def OpenWeatherMapClient_init_def WeatherApiClient_init_def)

text \<open>The shape of a successful secondary observation.\<close>

lemma WeatherApiClient_get_snow_data_shape:
  "WeatherApiClient_get_snow_data cfg ev cl w lat lon = (Inr d, cl1, w1) \<Longrightarrow>
   \<exists>snow_cm cm temp cond ts.
     py_number snow_cm = Inr cm \<and>
     d = [(''snow_cm'', snow_cm), (''snow_inches'', PNum (cm / (254 / 100))),
          (''current_temp'', temp), (''conditions'', cond), (''timestamp'', PStr ts),
          (''source'', PStr ''WeatherAPI.com'')]"
  by (auto simp: WeatherApiClient_get_snow_data_def cm_to_inches_def read_clock_def
           split: prod.splits sum.splits)

lemma WeatherApiClient_get_snow_data_http_calls:
  "WeatherApiClient_get_snow_data cfg ev cl w lat lon = (r, cl1, w1) \<Longrightarrow>
   http_calls w \<le> http_calls w1 \<and> (cache cl = Map.empty \<longrightarrow> http_calls w < http_calls w1)"
  by (auto simp: WeatherApiClient_get_snow_data_def WeatherApiClient_get_forecast_def read_clock_def
           split: prod.splits sum.splits
           dest: make_request_http_calls make_request_empty_cache_default)

lemmas run_simps =
  WeatherApiClient_get_snow_data_def WeatherApiClient_get_forecast_def
  OpenWeatherMapClient_get_current_weather_def OpenWeatherMapClient_get_forecast_def
  make_request_def is_cache_valid_def cache_response_def get_cache_key_def params_or_empty_def
  request_loop.simps http_get_def read_clock_def time_sleep_def
  WeatherApiClient_init_def OpenWeatherMapClient_init_def WeatherAPIClient_init_def api_key_or_def
  extract_totalsnow_cm_def cm_to_inches_def extract_temp_f_def extract_condition_text_def
  mock_env_def world0_def Let_def

lemmas owm_simps =
  free_endpoints_snow_data_def fallback_snow_data_def OpenWeatherMapClient_get_snow_data_def
  extract_current_snow_def extract_forecast_snow_def extract_period_snow_def
  extract_current_temp_def extract_conditions_def dict_get_def

text \<open>
  C5. \<open>verify_with_secondary_source\<close> returns a pair in every case. Whenever its \<open>try\<close>
  body raises, and in particular whenever the secondary \<open>get_snow_data\<close> (the request and
  the parsing of its payload) raises, the result is \<open>(False, None)\<close>. Whenever the
  secondary \<open>get_snow_data\<close> returns an observation, that observation has a numeric
  \<open>snow_inches\<close>, and the result is the observation (with the resort name added) together
  with the flag \<open>abs(primary - snow_inches) \<le> VERIFICATION_THRESHOLD\<close>: an absolute
  difference, nothing relative.
\<close>

theorem verify_with_secondary_source_silent:
  "(verify_try_body cfg ev w resort_name lat lon primary = (Inl e, w1) \<longrightarrow>
      verify_with_secondary_source cfg ev w resort_name lat lon primary = ((False, None), w1))
   \<and> (WeatherApiClient_get_snow_data cfg ev (WeatherApiClient_init cfg None True)
          (time_sleep 1 w) lat lon = (Inl e, cl1, w1) \<longrightarrow>
      verify_with_secondary_source cfg ev w resort_name lat lon primary = ((False, None), w1))
   \<and> (WeatherApiClient_get_snow_data cfg ev (WeatherApiClient_init cfg None True)
          (time_sleep 1 w) lat lon = (Inr secondary, cl1, w1) \<longrightarrow>
      (\<exists>snow_inches.
         map_of secondary ''snow_inches'' = Some (PNum snow_inches)
         \<and> verify_with_secondary_source cfg ev w resort_name lat lon primary
             = ((\<bar>primary - snow_inches\<bar> \<le> VERIFICATION_THRESHOLD cfg,
                 Some (AList.update ''resort'' (PStr resort_name) secondary)), w1)))"
proof (intro conjI impI)
  assume "verify_try_body cfg ev w resort_name lat lon primary = (Inl e, w1)"
  then show "verify_with_secondary_source cfg ev w resort_name lat lon primary = ((False, None), w1)"
    by (simp add: verify_with_secondary_source_def)
next
  assume "WeatherApiClient_get_snow_data cfg ev (WeatherApiClient_init cfg None True)
          (time_sleep 1 w) lat lon = (Inl e, cl1, w1)"
  then show "verify_with_secondary_source cfg ev w resort_name lat lon primary = ((False, None), w1)"
    by (simp add: verify_with_secondary_source_def verify_try_body_def)
next
  assume a: "WeatherApiClient_get_snow_data cfg ev (WeatherApiClient_init cfg None True)
          (time_sleep 1 w) lat lon = (Inr secondary, cl1, w1)"
  from WeatherApiClient_get_snow_data_shape [OF a]
  obtain snow_cm cm temp cond ts where
    d: "secondary = [(''snow_cm'', snow_cm), (''snow_inches'', PNum (cm / (254 / 100))),
          (''current_temp'', temp), (''conditions'', cond), (''timestamp'', PStr ts),
          (''source'', PStr ''WeatherAPI.com'')]"
    by blast
  have 1: "map_of secondary ''snow_inches'' = Some (PNum (cm / (254 / 100)))"
    by (simp add: d)
  have 2: "map_of (AList.update ''resort'' (PStr resort_name) secondary) ''snow_inches''
      = Some (PNum (cm / (254 / 100)))"
    by (simp add: update_conv' 1)
  have "verify_with_secondary_source cfg ev w resort_name lat lon primary
             = ((\<bar>primary - cm / (254 / 100)\<bar> \<le> VERIFICATION_THRESHOLD cfg,
                 Some (AList.update ''resort'' (PStr resort_name) secondary)), w1)"
    by (simp add: verify_with_secondary_source_def verify_try_body_def a 2 Let_def)
  with 1 show "\<exists>snow_inches.
         map_of secondary ''snow_inches'' = Some (PNum snow_inches)
         \<and> verify_with_secondary_source cfg ev w resort_name lat lon primary
             = ((\<bar>primary - snow_inches\<bar> \<le> VERIFICATION_THRESHOLD cfg,
                 Some (AList.update ''resort'' (PStr resort_name) secondary)), w1)"
    by blast
qed

theorem verify_with_secondary_source_silent_witness:
  "fst (verify_with_secondary_source default_settings (mock_env weatherapi_only) world0
          ''Test Resort'' 40 (- 111) 5)
     = (True, Some [(''snow_cm'', PNum (127 / 10)), (''snow_inches'', PNum 5),
                    (''current_temp'', PNum 30), (''conditions'', PStr ''Light snow''),
                    (''timestamp'', PStr ''2025-03-21T12:34:56''),
                    (''source'', PStr ''WeatherAPI.com''),
                    (''resort'', PStr ''Test Resort'')])
   \<and> fst (fst (verify_with_secondary_source default_settings (mock_env weatherapi_only) world0
          ''Test Resort'' 40 (- 111) 10)) = False
   \<and> fst (verify_with_secondary_source default_settings (mock_env always_http_500) world0
          ''Test Resort'' 40 (- 111) 5) = (False, None)"
proof -
  let ?up = "mock_env weatherapi_only"
  let ?down = "mock_env always_http_500"
  let ?cfg = default_settings
  let ?obs = "[(''snow_cm'', PNum (127 / 10)), (''snow_inches'', PNum 5),
               (''current_temp'', PNum 30), (''conditions'', PStr ''Light snow''),
               (''timestamp'', PStr ''2025-03-21T12:34:56''),
               (''source'', PStr ''WeatherAPI.com'')]"
  have up: "fst (WeatherApiClient_get_snow_data ?cfg ?up (WeatherApiClient_init ?cfg None True)
      (time_sleep 1 world0) 40 (- 111)) = Inr ?obs"
    by (simp add: run_simps weatherapi_only_def)
  have down: "\<exists>e. fst (WeatherApiClient_get_snow_data ?cfg ?down (WeatherApiClient_init ?cfg None True)
      (time_sleep 1 world0) 40 (- 111)) = Inl e"
    by (simp add: run_simps always_http_500_def)
  obtain cl1 w1 where r1: "WeatherApiClient_get_snow_data ?cfg ?up (WeatherApiClient_init ?cfg None True)
      (time_sleep 1 world0) 40 (- 111) = (Inr ?obs, cl1, w1)"
    using up
    by (cases "WeatherApiClient_get_snow_data ?cfg ?up (WeatherApiClient_init ?cfg None True)
      (time_sleep 1 world0) 40 (- 111)") auto
  obtain e cl2 w2 where r2: "WeatherApiClient_get_snow_data ?cfg ?down (WeatherApiClient_init ?cfg None True)
      (time_sleep 1 world0) 40 (- 111) = (Inl e, cl2, w2)"
    using down
    by (cases "WeatherApiClient_get_snow_data ?cfg ?down (WeatherApiClient_init ?cfg None True)
      (time_sleep 1 world0) 40 (- 111)") auto
  have upd: "AList.update ''resort'' (PStr ''Test Resort'') ?obs
      = ?obs @ [(''resort'', PStr ''Test Resort'')]"
    by simp
  from verify_with_secondary_source_silent [where cfg = ?cfg and ev = ?up and w = world0
      and lat = 40 and lon = "- 111" and secondary = ?obs and ?cl1.0 = cl1 and ?w1.0 = w1
      and resort_name = "''Test Resort''" and primary = 5] r1
  have a: "fst (verify_with_secondary_source ?cfg ?up world0 ''Test Resort'' 40 (- 111) 5)
      = (True, Some (?obs @ [(''resort'', PStr ''Test Resort'')]))"
    unfolding upd by (auto simp: default_thresholds)
  from verify_with_secondary_source_silent [where cfg = ?cfg and ev = ?up and w = world0
      and lat = 40 and lon = "- 111" and secondary = ?obs and ?cl1.0 = cl1 and ?w1.0 = w1
      and resort_name = "''Test Resort''" and primary = 10] r1
  have b: "fst (fst (verify_with_secondary_source ?cfg ?up world0 ''Test Resort'' 40 (- 111) 10))
      = False"
    by (auto simp: default_thresholds)
  from verify_with_secondary_source_silent [where cfg = ?cfg and ev = ?down and w = world0
      and lat = 40 and lon = "- 111" and e = e and ?cl1.0 = cl2 and ?w1.0 = w2
      and resort_name = "''Test Resort''" and primary = 5] r2
  have c: "fst (verify_with_secondary_source ?cfg ?down world0 ''Test Resort'' 40 (- 111) 5)
      = (False, None)"
    by simp
  from a b c show ?thesis by simp
qed

lemma free_endpoints_snow_data_http_calls:
  assumes "free_endpoints_snow_data cfg ev cl w lat lon = (r, cl2, w2)" and "cache cl = Map.empty"
  shows "http_calls w < http_calls w2"
proof -
  obtain r1 cl1 w1 where c: "OpenWeatherMapClient_get_current_weather cfg ev cl w lat lon = (r1, cl1, w1)"
    by (cases "OpenWeatherMapClient_get_current_weather cfg ev cl w lat lon") blast
  then have 1: "http_calls w < http_calls w1"
    using assms(2)
    by (auto simp: OpenWeatherMapClient_get_current_weather_def dest: make_request_empty_cache_default)
  show ?thesis
  proof (cases r1)
    case (Inl e)
    with assms(1) c 1 show ?thesis
      by (simp add: free_endpoints_snow_data_def)
  next
    case (Inr current_data)
    obtain r2 cl2' w2' where f: "OpenWeatherMapClient_get_forecast cfg ev cl1 w1 lat lon = (r2, cl2', w2')"
      by (cases "OpenWeatherMapClient_get_forecast cfg ev cl1 w1 lat lon") blast
    then have 2: "http_calls w1 \<le> http_calls w2'"
      by (auto simp: OpenWeatherMapClient_get_forecast_def dest: make_request_http_calls)
    from assms(1) c Inr f have "http_calls w2 = http_calls w2'"
      by (auto simp: free_endpoints_snow_data_def read_clock_def split: sum.splits)
    with 1 2 show ?thesis by simp
  qed
qed

lemma fallback_snow_data_http_calls:
  "fallback_snow_data cfg ev w lat lon = (r, w1) \<Longrightarrow> http_calls w \<le> http_calls w1"
  by (auto simp: fallback_snow_data_def read_clock_def split: prod.splits sum.splits
           dest!: WeatherApiClient_get_snow_data_http_calls)

lemma OpenWeatherMapClient_get_snow_data_http_calls:
  assumes "OpenWeatherMapClient_get_snow_data cfg ev cl w lat lon = (d, cl1, w1)"
    and "cache cl = Map.empty"
  shows "http_calls w < http_calls w1"
proof -
  obtain r cl2 w2 where f: "free_endpoints_snow_data cfg ev cl w lat lon = (r, cl2, w2)"
    by (cases "free_endpoints_snow_data cfg ev cl w lat lon") blast
  note 1 = free_endpoints_snow_data_http_calls [OF f assms(2)]
  show ?thesis
  proof (cases r)
    case (Inr snow_data)
    with assms(1) f 1 show ?thesis
      by (simp add: OpenWeatherMapClient_get_snow_data_def)
  next
    case (Inl e)
    obtain r3 w3 where b: "fallback_snow_data cfg ev w2 lat lon = (r3, w3)"
      by (cases "fallback_snow_data cfg ev w2 lat lon") blast
    note 2 = fallback_snow_data_http_calls [OF b]
    from assms(1) f Inl b have "http_calls w1 = http_calls w3"
      by (auto simp: OpenWeatherMapClient_get_snow_data_def read_clock_def split: sum.splits)
    with 1 2 show ?thesis by simp
  qed
qed

text \<open>
  C9. The module-level entry points take no client: \<open>get_resort_snow_data\<close> constructs
  \<open>OpenWeatherMapClient()\<close> and \<open>verify_with_secondary_source\<close> constructs
  \<open>WeatherApiClient()\<close> on every call, both with empty \<open>cache\<close> and \<open>cache_expiry\<close>, for
  which no key is valid. So every call of either entry point makes at least one HTTP
  request of its own, whatever was fetched before it.
\<close>

theorem entry_points_use_fresh_clients:
  "cache (OpenWeatherMapClient_init cfg None True) = Map.empty
   \<and> cache_expiry (OpenWeatherMapClient_init cfg None True) = Map.empty
   \<and> cache (WeatherApiClient_init cfg None True) = Map.empty
   \<and> cache_expiry (WeatherApiClient_init cfg None True) = Map.empty
   \<and> fst (is_cache_valid ev (OpenWeatherMapClient_init cfg None True) w cache_key) = False
   \<and> fst (is_cache_valid ev (WeatherApiClient_init cfg None True) w cache_key) = False
   \<and> http_calls w < http_calls (snd (get_resort_snow_data cfg ev w resort_name lat lon))
   \<and> http_calls w < http_calls (snd (verify_with_secondary_source cfg ev w resort_name lat lon primary))"
proof -
  have 1: "http_calls w < http_calls (snd (get_resort_snow_data cfg ev w resort_name lat lon))"
  proof -
    obtain d cl1 w1 where g: "OpenWeatherMapClient_get_snow_data cfg ev
        (OpenWeatherMapClient_init cfg None True) w lat lon = (d, cl1, w1)"
      by (cases "OpenWeatherMapClient_get_snow_data cfg ev
        (OpenWeatherMapClient_init cfg None True) w lat lon") blast
    from OpenWeatherMapClient_get_snow_data_http_calls [OF g] have "http_calls w < http_calls w1"
      by (simp add: fresh_clients)
    then show ?thesis
      by (simp add: get_resort_snow_data_def g Let_def)
  qed
  have 2: "http_calls w < http_calls (snd (verify_with_secondary_source cfg ev w resort_name lat lon primary))"
  proof -
    obtain r cl1 w1 where g: "WeatherApiClient_get_snow_data cfg ev
        (WeatherApiClient_init cfg None True) (time_sleep 1 w) lat lon = (r, cl1, w1)"
      by (cases "WeatherApiClient_get_snow_data cfg ev
        (WeatherApiClient_init cfg None True) (time_sleep 1 w) lat lon") blast
    from WeatherApiClient_get_snow_data_http_calls [OF g]
    have "http_calls w < http_calls w1"
      by (simp add: fresh_clients time_sleep_def)
    then show ?thesis
      by (auto simp: verify_with_secondary_source_def verify_try_body_def g Let_def
               split: sum.splits option.splits)
  qed
  show ?thesis
    using 1 2 by (simp add: fresh_clients is_cache_valid_def)
qed


theorem entry_points_use_fresh_clients_witness:
  "cache (OpenWeatherMapClient_init default_settings None True) = Map.empty
   \<and> cache (WeatherApiClient_init default_settings None True) = Map.empty
   \<and> http_calls world0 < http_calls (snd (get_resort_snow_data default_settings
        (mock_env weatherapi_only) world0 ''Test Resort'' 40 (- 111)))
   \<and> http_calls world0 < http_calls (snd (verify_with_secondary_source default_settings
        (mock_env weatherapi_only) world0 ''Test Resort'' 40 (- 111) 5))"
  using entry_points_use_fresh_clients [of default_settings "mock_env weatherapi_only" world0
      "''k''" "''Test Resort''" 40 "- 111" 5]
  by blast

lemma fallback_snow_data_shape:
  assumes "fallback_snow_data cfg ev w lat lon = (Inr fb, w2)"
  shows "\<exists>s temp cond ts.
     fb = [(''current_snow'', PNum s), (''forecast_snow'', PNum 0), (''current_temp'', temp),
           (''conditions'', cond), (''timestamp'', PStr ts),
           (''source'', PStr ''Fallback: WeatherAPI.com'')]"
proof -
  obtain r cl1 w1 where g: "WeatherApiClient_get_snow_data cfg ev (WeatherApiClient_init cfg None True)
      w lat lon = (r, cl1, w1)"
    by (cases "WeatherApiClient_get_snow_data cfg ev (WeatherApiClient_init cfg None True) w lat lon")
       blast
  with assms obtain d where r: "r = Inr d"
    by (cases r) (simp_all add: fallback_snow_data_def)
  from WeatherApiClient_get_snow_data_shape [OF g [unfolded r]]
  obtain snow_cm cm temp cond ts where
    d: "d = [(''snow_cm'', snow_cm), (''snow_inches'', PNum (cm / (254 / 100))),
          (''current_temp'', temp), (''conditions'', cond), (''timestamp'', PStr ts),
          (''source'', PStr ''WeatherAPI.com'')]"
    by blast
  from assms have "fb = [(''current_snow'', PNum (cm / (254 / 100))), (''forecast_snow'', PNum 0),
      (''current_temp'', temp), (''conditions'', cond),
      (''timestamp'', PStr (isoformat ev (datetime_now ev (clock_reads w1)))),
      (''source'', PStr ''Fallback: WeatherAPI.com'')]"
    by (auto simp: fallback_snow_data_def g r d read_clock_def dict_get_def)
  then show ?thesis by blast
qed

text \<open>
  C10. Degraded mode of \<open>OpenWeatherMapClient.get_snow_data\<close>. Whenever the outer \<open>try\<close>
  (the two free endpoints and the extraction from their payloads) raises and the fallback
  through \<open>WeatherApiClient\<close> succeeds, the observation returned is the fallback's: its
  \<open>forecast_snow\<close> is \<open>0\<close>, its \<open>source\<close> is \<open>"Fallback: WeatherAPI.com"\<close>, its \<open>current_snow\<close>
  is a number, and \<open>calculate_time_window_data\<close> gives a \<open>total_48h\<close> equal to \<open>current_24h\<close>
  (also once \<open>get_resort_snow_data\<close> has added the resort name).
\<close>

theorem fallback_has_no_forecast:
  assumes primary_fails: "free_endpoints_snow_data cfg ev cl w lat lon = (Inl e, cl1, w1)"
    and fallback_ok: "fallback_snow_data cfg ev w1 lat lon = (Inr fb, w2)"
  shows "OpenWeatherMapClient_get_snow_data cfg ev cl w lat lon = (fb, cl1, w2)
       \<and> map_of fb ''forecast_snow'' = Some (PNum 0)
       \<and> map_of fb ''source'' = Some (PStr ''Fallback: WeatherAPI.com'')
       \<and> (\<exists>current.
             map_of fb ''current_snow'' = Some (PNum current)
             \<and> calculate_time_window_data fb
                 = Inr [(''current_24h'', PNum current), (''forecast_24h'', PNum 0),
                        (''total_48h'', PNum current)]
             \<and> calculate_time_window_data (AList.update ''resort'' (PStr resort_name) fb)
                 = Inr [(''current_24h'', PNum current), (''forecast_24h'', PNum 0),
                        (''total_48h'', PNum current)])"
proof -
  from fallback_snow_data_shape [OF fallback_ok] obtain s temp cond ts where
    fb: "fb = [(''current_snow'', PNum s), (''forecast_snow'', PNum 0), (''current_temp'', temp),
           (''conditions'', cond), (''timestamp'', PStr ts),
           (''source'', PStr ''Fallback: WeatherAPI.com'')]"
    by blast
  have run: "OpenWeatherMapClient_get_snow_data cfg ev cl w lat lon = (fb, cl1, w2)"
    by (simp add: OpenWeatherMapClient_get_snow_data_def primary_fails fallback_ok)
  have win: "calculate_time_window_data fb
                 = Inr [(''current_24h'', PNum s), (''forecast_24h'', PNum 0), (''total_48h'', PNum s)]"
    by (simp add: fb calculate_time_window_data_def dict_get_def)
  have win': "calculate_time_window_data (AList.update ''resort'' (PStr resort_name) fb)
                 = Inr [(''current_24h'', PNum s), (''forecast_24h'', PNum 0), (''total_48h'', PNum s)]"
    by (simp add: fb calculate_time_window_data_def dict_get_def)
  have cur: "map_of fb ''current_snow'' = Some (PNum s)"
    by (simp add: fb)
  have rest: "map_of fb ''forecast_snow'' = Some (PNum 0)"
    "map_of fb ''source'' = Some (PStr ''Fallback: WeatherAPI.com'')"
    by (simp_all add: fb)
  from run rest cur win win' show ?thesis by blast
qed

theorem fallback_has_no_forecast_witness:
  "fst (OpenWeatherMapClient_get_snow_data default_settings (mock_env weatherapi_only)
          (OpenWeatherMapClient_init default_settings None True) world0 40 (- 111))
     = [(''current_snow'', PNum 5), (''forecast_snow'', PNum 0), (''current_temp'', PNum 30),
        (''conditions'', PStr ''Light snow''), (''timestamp'', PStr ''2025-03-21T12:34:56''),
        (''source'', PStr ''Fallback: WeatherAPI.com'')]
   \<and> calculate_time_window_data
        [(''current_snow'', PNum 5), (''forecast_snow'', PNum 0), (''current_temp'', PNum 30),
         (''conditions'', PStr ''Light snow''), (''timestamp'', PStr ''2025-03-21T12:34:56''),
         (''source'', PStr ''Fallback: WeatherAPI.com'')]
     = Inr [(''current_24h'', PNum 5), (''forecast_24h'', PNum 0), (''total_48h'', PNum 5)]"
proof -
  let ?ev = "mock_env weatherapi_only"
  let ?cfg = default_settings
  let ?cl = "OpenWeatherMapClient_init default_settings None True"
  let ?fb = "[(''current_snow'', PNum 5), (''forecast_snow'', PNum 0), (''current_temp'', PNum 30),
        (''conditions'', PStr ''Light snow''), (''timestamp'', PStr ''2025-03-21T12:34:56''),
        (''source'', PStr ''Fallback: WeatherAPI.com'')]"
  have "fst (free_endpoints_snow_data ?cfg ?ev ?cl world0 40 (- 111))
      = Inl (RequestException ''500 Server Error'')"
    by (simp add: owm_simps run_simps weatherapi_only_def)
  then obtain cl1 w1 where primary_fails:
    "free_endpoints_snow_data ?cfg ?ev ?cl world0 40 (- 111)
       = (Inl (RequestException ''500 Server Error''), cl1, w1)"
    by (cases "free_endpoints_snow_data ?cfg ?ev ?cl world0 40 (- 111)") auto
  have "fst (fallback_snow_data ?cfg ?ev w1 40 (- 111)) = Inr ?fb"
    by (simp add: owm_simps run_simps weatherapi_only_def)
  then obtain w2 where fallback_ok: "fallback_snow_data ?cfg ?ev w1 40 (- 111) = (Inr ?fb, w2)"
    by (cases "fallback_snow_data ?cfg ?ev w1 40 (- 111)") auto
  from fallback_has_no_forecast [OF primary_fails fallback_ok, of "''Test Resort''"]
  show ?thesis by auto
qed

text \<open>
  C6. The extraction at the payload shapes the claim names. A scalar \<open>snow\<close> field makes
  \<open>.get("1h", 0)\<close> (or \<open>.get("3h", 0)\<close> in a forecast bucket) raise \<open>AttributeError\<close> before
  the alternate-format branch is reached; a nested \<open>snow\<close> without a truthy \<open>1h\<close> makes the
  alternate-format branch return the dictionary itself; a whole run on a scalar payload,
  with the secondary source down, ends in the default observation (\<open>current_snow = 0\<close>
  for a reported \<open>5.0\<close>); and a whole run on a payload nested under \<open>3h\<close> returns a
  dictionary as \<open>current_snow\<close>, on which \<open>calculate_time_window_data\<close> raises \<open>TypeError\<close>.
\<close>

theorem scalar_snow_payload_is_not_extracted:
  "extract_current_snow (PDict [(''snow'', PNum 5)]) = Inl AttributeError
   \<and> extract_period_snow (PDict [(''snow'', PNum (3 / 2))]) = Inl AttributeError
   \<and> extract_current_snow (PDict [(''snow'', PDict [(''3h'', PNum (6 / 5))])])
       = Inr (PDict [(''3h'', PNum (6 / 5))])
   \<and> fst (OpenWeatherMapClient_get_snow_data default_settings (mock_env scalar_snow_responses)
            (OpenWeatherMapClient_init default_settings (Some ''test_key'') False) world0 40 (- 111))
       = [(''current_snow'', PNum 0), (''forecast_snow'', PNum 0), (''current_temp'', PNum 0),
          (''conditions'', PStr ''Error fetching data''),
          (''timestamp'', PStr ''2025-03-21T12:34:56''),
          (''source'', PStr ''Default values (API errors)'')]
   \<and> fst (OpenWeatherMapClient_get_snow_data default_settings (mock_env nested_3h_responses)
            (OpenWeatherMapClient_init default_settings (Some ''test_key'') False) world0 40 (- 111))
       = [(''current_snow'', PDict [(''3h'', PNum (6 / 5))]), (''forecast_snow'', PNum 0),
          (''current_temp'', PNum 30), (''conditions'', PStr ''light snow''),
          (''timestamp'', PStr ''2025-03-21T12:34:56''),
          (''source'', PStr ''OpenWeatherMap (Free API)'')]
   \<and> calculate_time_window_data
         [(''current_snow'', PDict [(''3h'', PNum (6 / 5))]), (''forecast_snow'', PNum 0),
          (''current_temp'', PNum 30), (''conditions'', PStr ''light snow''),
          (''timestamp'', PStr ''2025-03-21T12:34:56''),
          (''source'', PStr ''OpenWeatherMap (Free API)'')]
       = Inl TypeError"
  by (simp add: owm_simps run_simps scalar_snow_responses_def nested_3h_responses_def
        calculate_time_window_data_def)

end
